theory Spec2Isabelle
  imports Complex_Main
begin

section \<open>Data model\<close>

text \<open>
  The development embeds \<^verbatim>\<open>src/research/backtester.py\<close> (class
  \<^verbatim>\<open>ButterflyBacktester\<close>) and the event loop of
  \<^verbatim>\<open>backtest_by_ticker_template\<close> in \<^verbatim>\<open>src/research/run_.py\<close>.

  Conventions of the embedding:
  \<^item> a \<^verbatim>\<open>pd.Timestamp\<close> of the data is a calendar day, written as its day number
    (an \<open>int\<close>); \<^verbatim>\<open>(a - b).days\<close> is then \<open>a - b\<close>;
  \<^item> a data frame is the list of its rows, in row order; a boolean mask is \<open>filter\<close>;
  \<^item> a float that may be not-a-number is a \<open>py_float\<close>: the implied volatility of a
    row (the pricing model may fail to converge), the curvatures computed from it, and
    the result of \<^verbatim>\<open>avg_exit_size_ratio\<close>. The other float columns (prices, strikes,
    moneyness, delta, vega) hold finite numbers, written as \<open>real\<close>. Rounding and
    infinities are outside the model;
  \<^item> every exception is a value of \<open>py_error\<close>, and a function that can raise returns
    \<open>py_error + 'a\<close>.
\<close>

datatype py_error =
    DataRange          \<comment> \<open>\<^verbatim>\<open>IndexError("Out of data range")\<close>, raised by the backtester itself\<close>
  | IndexOutOfBounds   \<comment> \<open>an \<^verbatim>\<open>IndexError\<close> raised by pandas or numpy, with their own message\<close>
  | ValueError
  | AssertionError
  | ZeroDivisionError
  | RuntimeWarning
  | OtherError string  \<comment> \<open>any other exception, e.g. \<^verbatim>\<open>AttributeError\<close> or \<^verbatim>\<open>TypeError\<close>\<close>

datatype put_call = Put | Call

text \<open>
  A float that is a number or not-a-number. Arithmetic with not-a-number gives
  not-a-number; a division is only written where Python has checked the divisor.
\<close>

datatype py_float = NaN | Num real

instantiation py_float :: "{zero, plus, minus, inverse}"
begin

definition zero_py_float :: py_float where
  "zero_py_float = Num 0"

definition plus_py_float :: "py_float \<Rightarrow> py_float \<Rightarrow> py_float" where
  "plus_py_float a b =
     (case a of NaN \<Rightarrow> NaN | Num x \<Rightarrow> (case b of NaN \<Rightarrow> NaN | Num y \<Rightarrow> Num (x + y)))"

definition minus_py_float :: "py_float \<Rightarrow> py_float \<Rightarrow> py_float" where
  "minus_py_float a b =
     (case a of NaN \<Rightarrow> NaN | Num x \<Rightarrow> (case b of NaN \<Rightarrow> NaN | Num y \<Rightarrow> Num (x - y)))"

definition inverse_py_float :: "py_float \<Rightarrow> py_float" where
  "inverse_py_float a = (case a of NaN \<Rightarrow> NaN | Num x \<Rightarrow> Num (inverse x))"

definition divide_py_float :: "py_float \<Rightarrow> py_float \<Rightarrow> py_float" where
  "divide_py_float a b =
     (case a of NaN \<Rightarrow> NaN | Num x \<Rightarrow> (case b of NaN \<Rightarrow> NaN | Num y \<Rightarrow> Num (x / y)))"

instance ..

end

record option_row =
  ExpirationDate :: int
  DataDate :: int
  PutCall :: put_call
  StrikePrice :: real
  UnderlyingPrice :: real
  AskPrice :: real
  AskSize :: int
  BidPrice :: real
  BidSize :: int
  DTE :: int
  MidPrice :: real
  StrikeProp :: real
  ImpliedVolatility :: py_float
  Delta :: real
  Vega :: real

text \<open>The twelve entries stored for each leg in \<^verbatim>\<open>self.contracts[contract_name]\<close>.\<close>

record contract =
  Strike :: real
  Entry_Price :: real
  Entry_Size :: int
  Entry_IV :: py_float
  Entry_Vega :: real
  Entry_Intrinsic :: real
  Exit_Price :: real
  Exit_Size :: int
  Exit_IV :: py_float
  Exit_Vega :: real
  Exit_Intrinsic :: real
  Expiration_Value :: real

text \<open>The four keys of \<^verbatim>\<open>self.contracts\<close>, in the order the dictionary is created.\<close>

datatype leg = OTM_Put | ATM_Put | ATM_Call | OTM_Call

fun contract_name :: "leg \<Rightarrow> string" where
  "contract_name OTM_Put = ''OTM Put''"
| "contract_name ATM_Put = ''ATM Put''"
| "contract_name ATM_Call = ''ATM Call''"
| "contract_name OTM_Call = ''OTM Call''"

text \<open>\<^verbatim>\<open>flag = contract_name.split()[1].lower()\<close> on the four keys.\<close>

fun flag_of :: "leg \<Rightarrow> put_call" where
  "flag_of OTM_Put = Put"
| "flag_of ATM_Put = Put"
| "flag_of ATM_Call = Call"
| "flag_of OTM_Call = Call"

text \<open>\<^verbatim>\<open>wing = True if contract_name[0] == 'O' else False\<close>.\<close>

definition wing :: "leg \<Rightarrow> bool" where
  "wing l = (hd (contract_name l) = CHR ''O'')"

text \<open>The instance attributes set by \<^verbatim>\<open>__init__\<close>.\<close>

record backtester =
  tdays :: "int list"
  edate :: int
  edate_idx :: int
  expiry :: int
  df :: "option_row list"
  exit_date :: int
  entry_price :: real
  final_price :: real
  wing_width :: real
  contracts :: "leg \<Rightarrow> contract"

section \<open>Library operations used by the code\<close>

text \<open>
  \<^verbatim>\<open>index[i]\<close> on a pandas index or numpy array with an integer: a negative position
  counts from the end, and a position outside \<open>[-n, n)\<close> raises pandas' own
  \<^verbatim>\<open>IndexError\<close>.
\<close>

definition py_index :: "'a list \<Rightarrow> int \<Rightarrow> py_error + 'a" where
  "py_index xs i =
     (if 0 \<le> i \<and> i < int (length xs) then Inr (xs ! nat i)
      else if i < 0 \<and> - int (length xs) \<le> i then Inr (xs ! nat (int (length xs) + i))
      else Inl IndexOutOfBounds)"

text \<open>\<^verbatim>\<open>np.where(xs == v)[0][0]\<close>: the first position holding \<open>v\<close>, if any.\<close>

fun where_first :: "'a list \<Rightarrow> 'a \<Rightarrow> nat option" where
  "where_first [] v = None"
| "where_first (x # xs) v =
     (if x = v then Some 0 else map_option Suc (where_first xs v))"

text \<open>
  \<^verbatim>\<open>argmin\<close> and \<open>argmax\<close> return the first position of the extreme value. The
  scan keeps the best position seen so far and replaces it only by a strictly better one.
\<close>

fun argmin_scan :: "('b::linorder) list \<Rightarrow> nat \<Rightarrow> nat \<Rightarrow> 'b \<Rightarrow> nat" where
  "argmin_scan [] i best bv = best"
| "argmin_scan (x # xs) i best bv =
     (if x < bv then argmin_scan xs (Suc i) i x else argmin_scan xs (Suc i) best bv)"

definition argmin :: "('b::linorder) list \<Rightarrow> py_error + nat" where
  "argmin ks = (case ks of [] \<Rightarrow> Inl ValueError | k # rest \<Rightarrow> Inr (argmin_scan rest 1 0 k))"

fun argmax_scan :: "('b::linorder) list \<Rightarrow> nat \<Rightarrow> nat \<Rightarrow> 'b \<Rightarrow> nat" where
  "argmax_scan [] i best bv = best"
| "argmax_scan (x # xs) i best bv =
     (if bv < x then argmax_scan xs (Suc i) i x else argmax_scan xs (Suc i) best bv)"

definition argmax :: "('b::linorder) list \<Rightarrow> py_error + nat" where
  "argmax ks = (case ks of [] \<Rightarrow> Inl ValueError | k # rest \<Rightarrow> Inr (argmax_scan rest 1 0 k))"

text \<open>\<^verbatim>\<open>rows.iloc[key(rows).argmin()]\<close>: the first row whose key is smallest.\<close>

definition iloc_argmin :: "('a \<Rightarrow> 'b::linorder) \<Rightarrow> 'a list \<Rightarrow> py_error + 'a" where
  "iloc_argmin key rows =
     (case argmin (map key rows) of Inl e \<Rightarrow> Inl e | Inr i \<Rightarrow> Inr (rows ! i))"

text \<open>Sequencing of two steps, the second skipped when the first raises.\<close>

definition and_then :: "py_error + 'a \<Rightarrow> ('a \<Rightarrow> py_error + 'b) \<Rightarrow> py_error + 'b" where
  "and_then m f = (case m of Inl e \<Rightarrow> Inl e | Inr x \<Rightarrow> f x)"

section \<open>Construction of an event\<close>

text \<open>
  \<^verbatim>\<open>__fix_edate\<close>: returns the pair \<open>(self.edate_idx, self.edate)\<close>. The first
  branch is the \<^verbatim>\<open>try\<close>, the second the \<^verbatim>\<open>except IndexError\<close>; the position is
  decremented for a call before the market opened, and the anchor date is read back from
  the calendar at the resulting position.
\<close>

definition fix_edate :: "int list \<Rightarrow> int \<Rightarrow> bool \<Rightarrow> py_error + (int \<times> int)" where
  "fix_edate trading_days earnings_date before_market_open =
     and_then
       (case where_first trading_days earnings_date of
          Some i \<Rightarrow> Inr (int i, before_market_open)
        | None \<Rightarrow>
            (let diff = map (\<lambda>d. d - earnings_date) trading_days;
                 temp = filter (\<lambda>x. x < 0) diff
             in if length temp = 0 then Inl DataRange
                else and_then (argmax temp) (\<lambda>i. Inr (int i, False))))
       (\<lambda>(idx, bmo).
          let idx' = (if bmo then idx - 1 else idx)
          in and_then (py_index trading_days idx') (\<lambda>d. Inr (idx', d)))"

text \<open>
  \<^verbatim>\<open>__get_expiry\<close>: an \<^verbatim>\<open>IndexError\<close> of the calendar lookup is turned into the
  data-range error; \<^verbatim>\<open>argmin\<close> of an empty frame raises \<^verbatim>\<open>ValueError\<close>.
\<close>

definition get_expiry :: "int list \<Rightarrow> int \<Rightarrow> option_row list \<Rightarrow> int \<Rightarrow> py_error + int" where
  "get_expiry trading_days idx data min_days_expiry =
     (case py_index trading_days (idx + min_days_expiry) of
        Inl _ \<Rightarrow> Inl DataRange
      | Inr earliest_date \<Rightarrow>
          and_then (iloc_argmin (\<lambda>r. \<bar>DTE r\<bar>) (filter (\<lambda>r. DataDate r = earliest_date) data))
            (\<lambda>ser. Inr (ExpirationDate ser)))"

text \<open>\<^verbatim>\<open>__get_exit_date\<close>: the calendar lookup is not guarded here.\<close>

definition get_exit_date :: "int list \<Rightarrow> int \<Rightarrow> int \<Rightarrow> int \<Rightarrow> int \<Rightarrow> py_error + int" where
  "get_exit_date trading_days idx anchor expiry_date holding_period =
     (let to_expiry = expiry_date - anchor;
          holding_period' = (if holding_period > to_expiry then to_expiry - 1 else holding_period)
      in py_index trading_days (idx + holding_period'))"

text \<open>\<^verbatim>\<open>rows[rows['DataDate'] == d]['UnderlyingPrice'].iloc[0]\<close>; \<open>None\<close> is the
  \<^verbatim>\<open>IndexError\<close> of \<^verbatim>\<open>iloc[0]\<close> on an empty selection.\<close>

definition underlying_on :: "option_row list \<Rightarrow> int \<Rightarrow> real option" where
  "underlying_on rows d =
     (case filter (\<lambda>r. DataDate r = d) rows of [] \<Rightarrow> None | r # _ \<Rightarrow> Some (UnderlyingPrice r))"

text \<open>\<^verbatim>\<open>__get_underlying_prices\<close>: returns \<open>(self.entry_price, self.final_price)\<close>.\<close>

definition get_underlying_prices ::
  "option_row list \<Rightarrow> option_row list \<Rightarrow> int \<Rightarrow> int \<Rightarrow> py_error + (real \<times> real)" where
  "get_underlying_prices chain option_data expiry_date anchor =
     (case (underlying_on chain expiry_date, underlying_on chain anchor) of
        (Some fp, Some ep) \<Rightarrow> Inr (ep, fp)
      | _ \<Rightarrow>
          (case (underlying_on option_data expiry_date, underlying_on option_data anchor) of
             (Some fp, Some ep) \<Rightarrow> Inr (ep, fp)
           | _ \<Rightarrow> Inl DataRange))"

definition intrinsic_value :: "option_row \<Rightarrow> put_call \<Rightarrow> real" where
  "intrinsic_value row flag =
     (if flag = Call then max 0 (UnderlyingPrice row - StrikePrice row)
      else max 0 (StrikePrice row - UnderlyingPrice row))"

definition expiration_value :: "real \<Rightarrow> real \<Rightarrow> put_call \<Rightarrow> real" where
  "expiration_value fp strike flag =
     (if flag = Call then max 0 (fp - strike) else max 0 (strike - fp))"

text \<open>The columns \<^verbatim>\<open>'1/4'\<close> and \<^verbatim>\<open>'3/4'\<close> added to \<^verbatim>\<open>self.df\<close>.\<close>

definition quarter :: "option_row \<Rightarrow> real" where
  "quarter r = (BidPrice r + MidPrice r) / 2"

definition three_quarter :: "option_row \<Rightarrow> real" where
  "three_quarter r = (MidPrice r + AskPrice r) / 2"

text \<open>The entry row of a leg: the row of the right kind on the anchor date whose
  moneyness is closest to the target.\<close>

definition entry_row :: "option_row list \<Rightarrow> int \<Rightarrow> put_call \<Rightarrow> real \<Rightarrow> py_error + option_row" where
  "entry_row chain anchor flag strike_prop =
     (let df_entry = filter (\<lambda>r. DataDate r = anchor) (filter (\<lambda>r. PutCall r = flag) chain)
      in if length df_entry = 0 then Inl DataRange
         else iloc_argmin (\<lambda>r. \<bar>StrikeProp r - strike_prop\<bar>) df_entry)"

text \<open>The exit row: the same strike on the exit date; several such rows must be equal.\<close>

definition exit_row :: "option_row list \<Rightarrow> int \<Rightarrow> put_call \<Rightarrow> option_row \<Rightarrow> py_error + option_row" where
  "exit_row chain exit_day flag entry =
     (let exit_rows = filter (\<lambda>r. DataDate r = exit_day \<and> StrikePrice r = StrikePrice entry)
                    (filter (\<lambda>r. PutCall r = flag) chain)
      in if length exit_rows > 1 then
           (if list_all (\<lambda>r. r = hd exit_rows) exit_rows then Inr (hd exit_rows) else Inl AssertionError)
         else if length exit_rows = 0 then Inl DataRange
         else Inr (hd exit_rows))"

text \<open>\<^verbatim>\<open>get_single_contract_info\<close>: the dictionary stored for one leg.\<close>

definition get_single_contract_info ::
  "option_row list \<Rightarrow> int \<Rightarrow> int \<Rightarrow> real \<Rightarrow> leg \<Rightarrow> real \<Rightarrow> py_error + contract" where
  "get_single_contract_info chain anchor exit_day fp name strike_prop =
     (let flag = flag_of name; w = wing name
      in and_then (entry_row chain anchor flag strike_prop) (\<lambda>entry.
         and_then (exit_row chain exit_day flag entry) (\<lambda>exit_ser.
           let entry_intrinsic = intrinsic_value entry flag;
               exit_intrinsic = intrinsic_value exit_ser flag;
               final_value = expiration_value fp (StrikePrice entry) flag
           in Inr \<lparr> Strike = StrikePrice entry,
                    Entry_Price = (if w then three_quarter entry
                                   else max entry_intrinsic (quarter entry)),
                    Entry_Size = (if w then AskSize entry else BidSize entry),
                    Entry_IV = ImpliedVolatility entry,
                    Entry_Vega = Vega entry,
                    Entry_Intrinsic = entry_intrinsic,
                    Exit_Price = (if w then max exit_intrinsic (quarter exit_ser)
                                  else three_quarter exit_ser),
                    Exit_Size = (if w then BidSize exit_ser else AskSize exit_ser),
                    Exit_IV = ImpliedVolatility exit_ser,
                    Exit_Vega = Vega exit_ser,
                    Exit_Intrinsic = exit_intrinsic,
                    Expiration_Value = final_value \<rparr>)))"

definition strike_prop_map :: "real \<Rightarrow> leg \<Rightarrow> real" where
  "strike_prop_map ww l =
     (case l of OTM_Put \<Rightarrow> 1 - ww | ATM_Put \<Rightarrow> 1 | ATM_Call \<Rightarrow> 1 | OTM_Call \<Rightarrow> 1 + ww)"

text \<open>\<^verbatim>\<open>list(self.contracts)\<close>: the keys in the order the loops visit them.\<close>

definition legs :: "leg list" where
  "legs = [OTM_Put, ATM_Put, ATM_Call, OTM_Call]"

text \<open>\<^verbatim>\<open>__get_all_contract_info\<close>: the loop over the four keys, in dictionary order,
  stopping at the first leg that raises. The dictionary always has exactly these four
  keys, so the result is a function on \<open>leg\<close>.\<close>

definition get_all_contract_info ::
  "option_row list \<Rightarrow> int \<Rightarrow> int \<Rightarrow> real \<Rightarrow> real \<Rightarrow> py_error + (leg \<Rightarrow> contract)" where
  "get_all_contract_info chain anchor exit_day fp ww =
     and_then (get_single_contract_info chain anchor exit_day fp OTM_Put
                 (strike_prop_map ww OTM_Put)) (\<lambda>c1.
     and_then (get_single_contract_info chain anchor exit_day fp ATM_Put
                 (strike_prop_map ww ATM_Put)) (\<lambda>c2.
     and_then (get_single_contract_info chain anchor exit_day fp ATM_Call
                 (strike_prop_map ww ATM_Call)) (\<lambda>c3.
     and_then (get_single_contract_info chain anchor exit_day fp OTM_Call
                 (strike_prop_map ww OTM_Call)) (\<lambda>c4.
       Inr (\<lambda>l. case l of OTM_Put \<Rightarrow> c1 | ATM_Put \<Rightarrow> c2 | ATM_Call \<Rightarrow> c3 | OTM_Call \<Rightarrow> c4)))))"

text \<open>\<^verbatim>\<open>ButterflyBacktester.__init__\<close>, with its keyword defaults made explicit
  arguments (\<open>holding_period = 5\<close>, \<open>wing_width = 0.1\<close>, \<open>min_days_expiry = 10\<close>
  in the source).\<close>

definition init :: "option_row list \<Rightarrow> int \<Rightarrow> int list \<Rightarrow> bool \<Rightarrow> int \<Rightarrow> real \<Rightarrow> int
    \<Rightarrow> py_error + backtester" where
  "init option_data earnings_date trading_days before_market_open holding_period ww
        min_days_expiry =
     and_then (fix_edate trading_days earnings_date before_market_open) (\<lambda>(idx, anchor).
     and_then (get_expiry trading_days idx option_data min_days_expiry) (\<lambda>expiry_date.
       let chain = filter (\<lambda>r. ExpirationDate r = expiry_date) option_data
       in and_then (get_exit_date trading_days idx anchor expiry_date holding_period) (\<lambda>exit_day.
          and_then (get_underlying_prices chain option_data expiry_date anchor) (\<lambda>(ep, fp).
          and_then (get_all_contract_info chain anchor exit_day fp ww) (\<lambda>cs.
            Inr \<lparr> tdays = trading_days, edate = anchor, edate_idx = idx,
                  expiry = expiry_date, df = chain, exit_date = exit_day,
                  entry_price = ep, final_price = fp, wing_width = ww,
                  contracts = cs \<rparr>)))))"

section \<open>Curvature of the smile\<close>

text \<open>
  \<^verbatim>\<open>__curve_calc_disc\<close>. The two at-the-money rows are taken from the whole frame by
  their delta; only the out-of-the-money rows are taken from the puts and from the calls.
  The last division is one of Python floats, which raises on a zero divisor; a
  not-a-number implied volatility raises nothing and gives a not-a-number curvature.
\<close>

definition curve_calc_disc :: "option_row list \<Rightarrow> py_error + py_float" where
  "curve_calc_disc rows =
     (if length rows = 0 then Inl DataRange
      else
        and_then (iloc_argmin (\<lambda>r. \<bar>Delta r + 1/2\<bar>) rows) (\<lambda>atm_put.
        and_then (iloc_argmin (\<lambda>r. \<bar>Delta r - 1/2\<bar>) rows) (\<lambda>atm_call.
          let atm_vol = (ImpliedVolatility atm_put + ImpliedVolatility atm_call) / Num 2;
              df_puts = filter (\<lambda>r. PutCall r = Put) rows;
              df_calls = filter (\<lambda>r. PutCall r = Call) rows
          in if length df_puts = 0 \<or> length df_calls = 0 then Inl DataRange
             else
               and_then (iloc_argmin (\<lambda>r. \<bar>StrikeProp r - 9/10\<bar>) df_puts) (\<lambda>otm_put.
               and_then (iloc_argmin (\<lambda>r. \<bar>StrikeProp r - 11/10\<bar>) df_calls) (\<lambda>otm_call.
                 let otm_vol = (ImpliedVolatility otm_put + ImpliedVolatility otm_call) / Num 2
                 in if atm_vol = 0 then Inl ZeroDivisionError
                    else Inr (otm_vol / atm_vol))))))"

text \<open>
  \<^verbatim>\<open>__curve_calc_cont\<close>. The least-squares fit is numpy's: \<open>quad_fit\<close> stands for
  \<^verbatim>\<open>np.poly1d(np.polyfit(x, y, 2))[2]\<close> on the list of points, with \<open>None\<close> when numpy
  emits \<^verbatim>\<open>RankWarning\<close> (an exception here, since warnings are errors). The logarithm
  of a non-positive moneyness is a numpy warning, hence an exception as well.
\<close>

definition curve_calc_cont ::
  "((real \<times> py_float) list \<Rightarrow> py_float option) \<Rightarrow> option_row list
     \<Rightarrow> py_error + py_float" where
  "curve_calc_cont quad_fit rows =
     (let put_side = filter (\<lambda>r. PutCall r = Put \<and> StrikeProp r \<le> 1) rows;
          call_side = filter (\<lambda>r. PutCall r = Call \<and> StrikeProp r \<ge> 1) rows
      in if length put_side = 0 \<or> length call_side = 0 then Inl DataRange
         else
           (let surface_df = put_side @ call_side
            in if \<exists>r \<in> set surface_df. StrikeProp r \<le> 0 then Inl RuntimeWarning
               else
                 (case quad_fit (map (\<lambda>r. (ln (StrikeProp r), ImpliedVolatility r)) surface_df) of
                    None \<Rightarrow> Inl DataRange
                  | Some quadratic_term \<Rightarrow> Inr quadratic_term)))"

text \<open>\<^verbatim>\<open>sub in s\<close> on strings.\<close>

fun starts_with :: "string \<Rightarrow> string \<Rightarrow> bool" where
  "starts_with s [] = True"
| "starts_with [] (c # cs) = False"
| "starts_with (x # xs) (c # cs) = (x = c \<and> starts_with xs cs)"

fun py_in :: "string \<Rightarrow> string \<Rightarrow> bool" where
  "py_in sub [] = (sub = [])"
| "py_in sub (x # xs) = (starts_with (x # xs) sub \<or> py_in sub xs)"

text \<open>The choice of the method at the head of \<^verbatim>\<open>curve_changes\<close>.\<close>

definition curve_method ::
  "((real \<times> py_float) list \<Rightarrow> py_float option) \<Rightarrow> string
     \<Rightarrow> py_error + (option_row list \<Rightarrow> py_error + py_float)" where
  "curve_method quad_fit method =
     (if py_in ''disc'' method then Inr curve_calc_disc
      else if py_in ''cont'' method then Inr (curve_calc_cont quad_fit)
      else Inl ValueError)"

definition liquid :: "option_row \<Rightarrow> bool" where
  "liquid r = (BidPrice r > 0 \<and> AskPrice r > 0 \<and> BidSize r > 0 \<and> AskSize r > 0)"

text \<open>
  The body of \<^verbatim>\<open>curve_changes\<close> once the method is chosen (\<open>calc\<close>): returns the
  pair \<open>(change_before, change_after)\<close> of the dictionary
  \<^verbatim>\<open>{'before': ..., 'after': ...}\<close>. The two calendar lookups are not guarded; the
  three curvatures are computed in the order before, after, earnings.
\<close>

definition curve_changes_with ::
  "(option_row list \<Rightarrow> py_error + py_float) \<Rightarrow> backtester \<Rightarrow> int \<Rightarrow> int
     \<Rightarrow> py_error + (py_float \<times> py_float)" where
  "curve_changes_with calc bt days_before days_after =
     (let rows = filter liquid (df bt)
      in and_then (py_index (tdays bt) (edate_idx bt - days_before)) (\<lambda>before_date.
         and_then (py_index (tdays bt) (edate_idx bt + days_after)) (\<lambda>after_date.
           let df_before = filter (\<lambda>r. DataDate r = before_date) rows;
               df_after = filter (\<lambda>r. DataDate r = after_date) rows;
               df_earnings = filter (\<lambda>r. DataDate r = edate bt) rows
           in and_then (calc df_before) (\<lambda>before_curve.
              and_then (calc df_after) (\<lambda>after_curve.
              and_then (calc df_earnings) (\<lambda>earnings_curve.
                Inr (earnings_curve - before_curve, after_curve - earnings_curve)))))))"

text \<open>\<^verbatim>\<open>curve_changes\<close>: the method is chosen first, then the body runs.\<close>

definition curve_changes ::
  "((real \<times> py_float) list \<Rightarrow> py_float option) \<Rightarrow> backtester \<Rightarrow> string \<Rightarrow> int \<Rightarrow> int
     \<Rightarrow> py_error + (py_float \<times> py_float)" where
  "curve_changes quad_fit bt method days_before days_after =
     and_then (curve_method quad_fit method) (\<lambda>calc.
       curve_changes_with calc bt days_before days_after)"

section \<open>Trade-level metrics\<close>

text \<open>\<^verbatim>\<open>int(x)\<close> on a float: truncation towards zero.\<close>

definition py_int :: "real \<Rightarrow> int" where
  "py_int x = (if 0 \<le> x then \<lfloor>x\<rfloor> else \<lceil>x\<rceil>)"

text \<open>\<^verbatim>\<open>min([contract['Entry Size'] for contract in self.contracts.values()])\<close>.\<close>

definition min_entry_size :: "backtester \<Rightarrow> int" where
  "min_entry_size bt = Min (set (map (\<lambda>l. Entry_Size (contracts bt l)) legs))"

text \<open>The body of the loop of \<^verbatim>\<open>pnl\<close> for one leg: \<open>curr_pnl\<close>.\<close>

definition curr_pnl :: "backtester \<Rightarrow> int \<Rightarrow> leg \<Rightarrow> real" where
  "curr_pnl bt actual_entry_size l =
     (let c = contracts bt l;
          remainder = max 0 (actual_entry_size - Exit_Size c);
          offloaded = actual_entry_size - remainder;
          main_pnl = (Exit_Price c - Entry_Price c) * real_of_int offloaded;
          leftover_pnl = (Expiration_Value c - Entry_Price c) * real_of_int remainder;
          curr = main_pnl + leftover_pnl
      in if \<not> wing l then curr * (-1) else curr)"

definition pnl :: "backtester \<Rightarrow> real \<Rightarrow> real" where
  "pnl bt entry_size_ratio =
     (let actual_entry_size = py_int (real_of_int (min_entry_size bt) * entry_size_ratio)
      in if actual_entry_size = 0 then 0
         else foldl (\<lambda>total_pnl l. total_pnl + curr_pnl bt actual_entry_size l) 0 legs * 100)"

text \<open>\<^verbatim>\<open>avg_exit_size_ratio\<close>: \<^verbatim>\<open>np.nan\<close> or the average of the four ratios.\<close>

definition avg_exit_size_ratio :: "backtester \<Rightarrow> py_float" where
  "avg_exit_size_ratio bt =
     (let entry_size = min_entry_size bt
      in if entry_size = 0 then NaN
         else
           (let exit_size_ratios =
                  map (\<lambda>l. min 1 (real_of_int (Exit_Size (contracts bt l)) / real_of_int entry_size))
                    legs
            in Num (sum_list exit_size_ratios / real (length exit_size_ratios))))"

section \<open>The batch runner\<close>

text \<open>
  The inner loop of \<^verbatim>\<open>backtest_by_ticker_template\<close> over \<^verbatim>\<open>funcs_to_run\<close>. An entry
  of \<open>funcs\<close> is \<^verbatim>\<open>getattr(backtester, funcs_to_run[i])\<close> applied to
  \<^verbatim>\<open>**func_kwargs[i]\<close>; \<open>row\<close> is the row \<^verbatim>\<open>out.loc[edate]\<close>, indexed by the position
  of the column, with \<open>None\<close> for a cell that was never written.
\<close>

fun run_funcs ::
  "'bt \<Rightarrow> ('bt \<Rightarrow> py_error + 'r) list \<Rightarrow> nat \<Rightarrow> (nat \<Rightarrow> 'r option)
     \<Rightarrow> py_error + (nat \<Rightarrow> 'r option)" where
  "run_funcs bt [] i row = Inr row"
| "run_funcs bt (method # rest) i row =
     (case method bt of
        Inl error \<Rightarrow> if error = DataRange then run_funcs bt rest (Suc i) row else Inl error
      | Inr curr_result \<Rightarrow> run_funcs bt rest (Suc i) (row(i := Some curr_result)))"

text \<open>
  The outer loop over \<^verbatim>\<open>earnings_dates\<close>; \<open>new_backtester\<close> is the call of the
  constructor for one earnings date.
\<close>

fun backtest_loop ::
  "('ev \<Rightarrow> py_error + 'bt) \<Rightarrow> ('bt \<Rightarrow> py_error + 'r) list \<Rightarrow> 'ev list
     \<Rightarrow> ('ev \<Rightarrow> nat \<Rightarrow> 'r option) \<Rightarrow> py_error + ('ev \<Rightarrow> nat \<Rightarrow> 'r option)" where
  "backtest_loop new_backtester funcs [] out = Inr out"
| "backtest_loop new_backtester funcs (ev # rest) out =
     (case new_backtester ev of
        Inl error \<Rightarrow>
          if error = DataRange then backtest_loop new_backtester funcs rest out else Inl error
      | Inr bt \<Rightarrow>
          (case run_funcs bt funcs 0 (out ev) of
             Inl error \<Rightarrow> Inl error
           | Inr row \<Rightarrow> backtest_loop new_backtester funcs rest (out(ev := row))))"

text \<open>\<^verbatim>\<open>pd.DatetimeIndex(option_data['DataDate'].unique())\<close>: the dates of the data in
  order of first appearance.\<close>

definition unique :: "'a list \<Rightarrow> 'a list" where
  "unique xs = rev (remdups (rev xs))"

text \<open>
  \<^verbatim>\<open>backtest_by_ticker_template\<close> from the reading of the data on: the calendar is
  derived from the data, the table starts empty, and each earnings date is a pair of the
  date and its before-market-open flag.
\<close>

definition backtest_by_ticker_template ::
  "option_row list \<Rightarrow> (int \<times> bool) list \<Rightarrow> (backtester \<Rightarrow> py_error + 'r) list
     \<Rightarrow> int \<Rightarrow> real \<Rightarrow> int \<Rightarrow> py_error + (int \<times> bool \<Rightarrow> nat \<Rightarrow> 'r option)" where
  "backtest_by_ticker_template option_data earnings_dates funcs holding_period ww
        min_days_expiry =
     backtest_loop
       (\<lambda>(d, bmo). init option_data d (unique (map DataDate option_data)) bmo holding_period ww
                     min_days_expiry)
       funcs earnings_dates (\<lambda>ev i. None)"

section \<open>Example data\<close>

text \<open>
  A row as the cleaning script produces it: \<open>DTE\<close>, \<open>MidPrice\<close> and \<open>StrikeProp\<close>
  are derived from the other columns.
\<close>

definition quote ::
  "int \<Rightarrow> int \<Rightarrow> put_call \<Rightarrow> real \<Rightarrow> real \<Rightarrow> real \<Rightarrow> real \<Rightarrow> int \<Rightarrow> int \<Rightarrow> py_float
     \<Rightarrow> real \<Rightarrow> option_row" where
  "quote ex d pc strike und bid ask bsz asz iv dl =
     \<lparr> ExpirationDate = ex, DataDate = d, PutCall = pc, StrikePrice = strike,
       UnderlyingPrice = und, AskPrice = ask, AskSize = asz, BidPrice = bid, BidSize = bsz,
       DTE = ex - d, MidPrice = (ask + bid) / 2, StrikeProp = strike / und,
       ImpliedVolatility = iv, Delta = dl, Vega = 1/10 \<rparr>"

text \<open>
  Three weeks of trading days (Monday is day 0, weekends are missing) and one chain that
  expires on the last Friday, day 18: on every trading day a 90 put, a 100 put, a 100 call
  and a 110 call on an underlying that stays at 100, with prices that decay towards expiry.
\<close>

definition example_days :: "int list" where
  "example_days = [0, 1, 2, 3, 4, 7, 8, 9, 10, 11, 14, 15, 16, 17, 18]"

definition day_quotes :: "int \<Rightarrow> option_row list" where
  "day_quotes d =
     (let t = real_of_int (18 - d) in
      [ quote 18 d Put 90 100 (1 + t / 20) (6/5 + t / 20) 12 10 (Num (36/100)) (- 1/5),
        quote 18 d Put 100 100 (3 + t / 10) (16/5 + t / 10) 20 25 (Num (3/10)) (- 1/2),
        quote 18 d Call 100 100 (3 + t / 10) (16/5 + t / 10) 18 22 (Num (3/10)) (1/2),
        quote 18 d Call 110 100 (1 + t / 20) (6/5 + t / 20) 5 8 (Num (33/100)) (1/5) ])"

definition example_data :: "option_row list" where
  "example_data = concat (map day_quotes example_days)"

text \<open>
  The event of the example: earnings on day 1 after the close, with the defaults of the
  constructor. The anchor is day 1 (position 1), the expiry day 18, the exit day 8.
\<close>

definition example_contracts :: "leg \<Rightarrow> contract" where
  "example_contracts l =
     (case l of
        OTM_Put \<Rightarrow>
          \<lparr> Strike = 90, Entry_Price = 2, Entry_Size = 10, Entry_IV = Num (9/25), Entry_Vega = 1/10,
            Entry_Intrinsic = 0, Exit_Price = 31/20, Exit_Size = 12, Exit_IV = Num (9/25),
            Exit_Vega = 1/10, Exit_Intrinsic = 0, Expiration_Value = 0 \<rparr>
      | ATM_Put \<Rightarrow>
          \<lparr> Strike = 100, Entry_Price = 19/4, Entry_Size = 20, Entry_IV = Num (3/10), Entry_Vega = 1/10,
            Entry_Intrinsic = 0, Exit_Price = 83/20, Exit_Size = 25, Exit_IV = Num (3/10),
            Exit_Vega = 1/10, Exit_Intrinsic = 0, Expiration_Value = 0 \<rparr>
      | ATM_Call \<Rightarrow>
          \<lparr> Strike = 100, Entry_Price = 19/4, Entry_Size = 18, Entry_IV = Num (3/10), Entry_Vega = 1/10,
            Entry_Intrinsic = 0, Exit_Price = 83/20, Exit_Size = 22, Exit_IV = Num (3/10),
            Exit_Vega = 1/10, Exit_Intrinsic = 0, Expiration_Value = 0 \<rparr>
      | OTM_Call \<Rightarrow>
          \<lparr> Strike = 110, Entry_Price = 2, Entry_Size = 8, Entry_IV = Num (33/100), Entry_Vega = 1/10,
            Entry_Intrinsic = 0, Exit_Price = 31/20, Exit_Size = 5, Exit_IV = Num (33/100),
            Exit_Vega = 1/10, Exit_Intrinsic = 0, Expiration_Value = 0 \<rparr>)"

definition example_bt :: backtester where
  "example_bt =
     \<lparr> tdays = example_days, edate = 1, edate_idx = 1, expiry = 18, df = example_data,
       exit_date = 8, entry_price = 100, final_price = 100, wing_width = 1/10,
       contracts = example_contracts \<rparr>"

section \<open>The claims in the words of the specification\<close>

text \<open>
  The profit of one leg as the specification words it, before the sign of the leg: the
  contracts closed before expiry, \<open>min (entry count) (exit size)\<close>, earn the exit price,
  and the contracts held, \<open>max 0 (entry count - exit size)\<close>, earn the expiration value.
\<close>

definition leg_value :: "contract \<Rightarrow> int \<Rightarrow> real" where
  "leg_value c n =
     (Exit_Price c - Entry_Price c) * real_of_int (min n (Exit_Size c))
     + (Expiration_Value c - Entry_Price c) * real_of_int (max 0 (n - Exit_Size c))"

text \<open>The sum over the four legs, wings with their sign and bodies negated, times 100.\<close>

definition butterfly_value :: "backtester \<Rightarrow> int \<Rightarrow> real" where
  "butterfly_value bt n =
     100 * (leg_value (contracts bt OTM_Put) n - leg_value (contracts bt ATM_Put) n
            - leg_value (contracts bt ATM_Call) n + leg_value (contracts bt OTM_Call) n)"

text \<open>
  The discrete curvature as claim C3 words it: the at-the-money rows are the put closest
  to a delta of \<open>-1/2\<close> and the call closest to \<open>1/2\<close>.
\<close>

definition curve_calc_disc_claimed :: "option_row list \<Rightarrow> py_error + py_float" where
  "curve_calc_disc_claimed rows =
     (let df_puts = filter (\<lambda>r. PutCall r = Put) rows;
          df_calls = filter (\<lambda>r. PutCall r = Call) rows
      in if length rows = 0 \<or> length df_puts = 0 \<or> length df_calls = 0 then Inl DataRange
         else
           and_then (iloc_argmin (\<lambda>r. \<bar>Delta r + 1/2\<bar>) df_puts) (\<lambda>atm_put.
           and_then (iloc_argmin (\<lambda>r. \<bar>Delta r - 1/2\<bar>) df_calls) (\<lambda>atm_call.
           and_then (iloc_argmin (\<lambda>r. \<bar>StrikeProp r - 9/10\<bar>) df_puts) (\<lambda>otm_put.
           and_then (iloc_argmin (\<lambda>r. \<bar>StrikeProp r - 11/10\<bar>) df_calls) (\<lambda>otm_call.
             Inr (((ImpliedVolatility otm_put + ImpliedVolatility otm_call) / Num 2)
                  / ((ImpliedVolatility atm_put + ImpliedVolatility atm_call) / Num 2)))))))"

text \<open>
  A liquid day-slice of two rows on an underlying at 100: a call struck at 200, far out
  of the money, with delta 0, followed by a put struck at 200, far in the money, with
  delta \<open>-1\<close>.
\<close>

definition deep_slice :: "option_row list" where
  "deep_slice =
     [ quote 18 1 Call 200 100 (1/20) (1/10) 5 5 (Num (3/10)) 0,
       quote 18 1 Put 200 100 99 101 5 5 (Num (1/2)) (- 1) ]"

text \<open>
  A second example: one week of trading days and one chain that expires on its Friday,
  day 4, with a 90 put, a 102 put, a 98 call and a 110 call. The underlying falls from
  100 on day 0 to 80 on day 2 and ends at 85, so that the 102 put and the 98 call are in
  the money at entry and the 90 put is in the money at the exit, where its stale quote
  is below its intrinsic value. Two entries of day 0 are left open: the implied
  volatility of the 90 put and the ask size of the 110 call.
\<close>

definition week_days :: "int list" where
  "week_days = [0, 1, 2, 3, 4]"

definition week_data :: "py_float \<Rightarrow> int \<Rightarrow> option_row list" where
  "week_data iv90 asz110 =
     [ quote 4 0 Put 90 100 1 (6/5) 12 10 iv90 (- 1/5),
       quote 4 0 Put 102 100 (3/2) (19/10) 20 25 (Num (3/10)) (- 11/20),
       quote 4 0 Call 98 100 3 (17/5) 18 22 (Num (3/10)) (11/20),
       quote 4 0 Call 110 100 (1/2) (7/10) 5 asz110 (Num (7/20)) (1/5),
       quote 4 1 Put 90 90 3 (16/5) 12 10 (Num (2/5)) (- 1/2),
       quote 4 1 Put 102 90 12 (25/2) 20 25 (Num (2/5)) (- 9/10),
       quote 4 1 Call 98 90 (1/2) (7/10) 18 22 (Num (2/5)) (1/5),
       quote 4 1 Call 110 90 (1/10) (1/5) 5 8 (Num (9/20)) (1/20),
       quote 4 2 Put 90 80 9 (46/5) 12 10 (Num (1/2)) (- 9/10),
       quote 4 2 Put 102 80 22 23 20 25 (Num (1/2)) (- 19/20),
       quote 4 2 Call 98 80 (1/10) (3/10) 18 22 (Num (1/2)) (1/20),
       quote 4 2 Call 110 80 (1/20) (1/10) 5 8 (Num (11/20)) (1/50),
       quote 4 3 Put 90 80 10 (21/2) 12 10 (Num (1/2)) (- 19/20),
       quote 4 3 Put 102 80 22 (45/2) 20 25 (Num (1/2)) (- 24/25),
       quote 4 3 Call 98 80 (1/20) (1/10) 18 22 (Num (1/2)) (1/50),
       quote 4 3 Call 110 80 (1/50) (1/20) 5 8 (Num (11/20)) (1/100),
       quote 4 4 Put 90 85 5 (26/5) 12 10 (Num (1/2)) (- 24/25),
       quote 4 4 Put 102 85 17 (86/5) 20 25 (Num (1/2)) (- 99/100),
       quote 4 4 Call 98 85 (1/100) (1/50) 18 22 (Num (1/2)) (1/100),
       quote 4 4 Call 110 85 (1/100) (1/50) 5 8 (Num (11/20)) (1/200) ]"

text \<open>The four legs of the event of day 0 on this week (holding period 2, three days to
  the earliest expiry), in the order of the keys.\<close>

definition week_contracts :: "contract list" where
  "week_contracts =
     [ \<lparr> Strike = 90, Entry_Price = 23/20, Entry_Size = 10, Entry_IV = Num (2/5),
         Entry_Vega = 1/10, Entry_Intrinsic = 0, Exit_Price = 10, Exit_Size = 12,
         Exit_IV = Num (1/2), Exit_Vega = 1/10, Exit_Intrinsic = 10, Expiration_Value = 5 \<rparr>,
       \<lparr> Strike = 102, Entry_Price = 2, Entry_Size = 20, Entry_IV = Num (3/10),
         Entry_Vega = 1/10, Entry_Intrinsic = 2, Exit_Price = 91/4, Exit_Size = 25,
         Exit_IV = Num (1/2), Exit_Vega = 1/10, Exit_Intrinsic = 22, Expiration_Value = 17 \<rparr>,
       \<lparr> Strike = 98, Entry_Price = 31/10, Entry_Size = 18, Entry_IV = Num (3/10),
         Entry_Vega = 1/10, Entry_Intrinsic = 2, Exit_Price = 1/4, Exit_Size = 22,
         Exit_IV = Num (1/2), Exit_Vega = 1/10, Exit_Intrinsic = 0, Expiration_Value = 0 \<rparr>,
       \<lparr> Strike = 110, Entry_Price = 13/20, Entry_Size = 8, Entry_IV = Num (7/20),
         Entry_Vega = 1/10, Entry_Intrinsic = 0, Exit_Price = 1/16, Exit_Size = 5,
         Exit_IV = Num (11/20), Exit_Vega = 1/10, Exit_Intrinsic = 0, Expiration_Value = 0 \<rparr> ]"

text \<open>The event of day 0 on the week whose 90 put has no implied volatility on day 0
  (the pricing model did not converge): the same legs, but for the entry implied
  volatility of the 90 put.\<close>

definition nan_week_bt :: backtester where
  "nan_week_bt =
     \<lparr> tdays = week_days, edate = 0, edate_idx = 0, expiry = 4, df = week_data NaN 8,
       exit_date = 2, entry_price = 100, final_price = 85, wing_width = 1/10,
       contracts = (\<lambda>l. case l of
                       OTM_Put \<Rightarrow> (week_contracts ! 0) \<lparr> Entry_IV := NaN \<rparr>
                     | ATM_Put \<Rightarrow> week_contracts ! 1
                     | ATM_Call \<Rightarrow> week_contracts ! 2
                     | OTM_Call \<Rightarrow> week_contracts ! 3) \<rparr>"

section \<open>Sequencing, construction and the first extreme position\<close>

lemma and_then_Inr:
  "and_then m f = Inr y \<longleftrightarrow> (\<exists>x. m = Inr x \<and> f x = Inr y)"
  by (cases m) (simp_all add: and_then_def)

lemma init_fields:
  assumes "init option_data earnings_date trading_days before_market_open holding_period ww
             min_days_expiry = Inr bt"
  shows "tdays bt = trading_days"
    and "fix_edate trading_days earnings_date before_market_open = Inr (edate_idx bt, edate bt)"
    and "get_expiry trading_days (edate_idx bt) option_data min_days_expiry = Inr (expiry bt)"
    and "df bt = filter (\<lambda>r. ExpirationDate r = expiry bt) option_data"
    and "get_exit_date trading_days (edate_idx bt) (edate bt) (expiry bt) holding_period
           = Inr (exit_date bt)"
    and "get_underlying_prices (df bt) option_data (expiry bt) (edate bt)
           = Inr (entry_price bt, final_price bt)"
    and "get_all_contract_info (df bt) (edate bt) (exit_date bt) (final_price bt) ww
           = Inr (contracts bt)"
    and "wing_width bt = ww"
  using assms
  by (auto simp: init_def and_then_Inr Let_def split: prod.splits)

lemma fix_edate_anchor:
  assumes "fix_edate trading_days earnings_date before_market_open = Inr (idx, anchor)"
  shows "py_index trading_days idx = Inr anchor"
  using assms
  by (auto simp: fix_edate_def and_then_Inr Let_def split: prod.splits)

lemma argmin_scan_spec:
  assumes "best < length pre" "bv = pre ! best" "\<forall>x \<in> set pre. bv \<le> x"
  shows "argmin_scan rest (length pre) best bv < length (pre @ rest) \<and>
         (\<forall>x \<in> set (pre @ rest). (pre @ rest) ! argmin_scan rest (length pre) best bv \<le> x)"
  using assms
proof (induction rest arbitrary: pre best bv)
  case Nil
  then show ?case by simp
next
  case (Cons x xs)
  show ?case
  proof (cases "x < bv")
    case True
    have "argmin_scan xs (length (pre @ [x])) (length pre) x < length ((pre @ [x]) @ xs) \<and>
          (\<forall>y \<in> set ((pre @ [x]) @ xs).
              ((pre @ [x]) @ xs) ! argmin_scan xs (length (pre @ [x])) (length pre) x \<le> y)"
      using Cons.prems True by (intro Cons.IH) (auto simp: nth_append)
    with True show ?thesis by simp
  next
    case False
    have "argmin_scan xs (length (pre @ [x])) best bv < length ((pre @ [x]) @ xs) \<and>
          (\<forall>y \<in> set ((pre @ [x]) @ xs).
              ((pre @ [x]) @ xs) ! argmin_scan xs (length (pre @ [x])) best bv \<le> y)"
      using Cons.prems False by (intro Cons.IH) (auto simp: nth_append)
    with False show ?thesis by simp
  qed
qed

lemma iloc_argmin_spec:
  assumes "rows \<noteq> []"
  shows "\<exists>r. iloc_argmin key rows = Inr r \<and> r \<in> set rows \<and> (\<forall>x \<in> set rows. key r \<le> key x)"
proof -
  from assms obtain r0 rs where rows: "rows = r0 # rs" by (cases rows) auto
  let ?j = "argmin_scan (map key rs) 1 0 (key r0)"
  have "?j < length ([key r0] @ map key rs) \<and>
        (\<forall>x \<in> set ([key r0] @ map key rs). ([key r0] @ map key rs) ! ?j \<le> x)"
    using argmin_scan_spec[of 0 "[key r0]" "key r0" "map key rs"] by simp
  then have j: "?j < length rows" and m: "\<forall>x \<in> set rows. key (rows ! ?j) \<le> key x"
    by (auto simp: rows nth_Cons split: nat.splits)
  have "iloc_argmin key rows = Inr (rows ! ?j)"
    by (simp add: iloc_argmin_def argmin_def rows)
  with j m show ?thesis by auto
qed

lemma iloc_argmin_empty: "iloc_argmin key [] = Inl ValueError"
  by (simp add: iloc_argmin_def argmin_def)

section \<open>The example event\<close>

text \<open>Each step of the constructor on the example, evaluated from the definitions.\<close>

lemma example_fix_edate: "fix_edate example_days 1 False = Inr (1, 1)"
  by code_simp

lemma example_expiry: "get_expiry example_days 1 example_data 10 = Inr 18"
  by code_simp

lemma example_chain: "filter (\<lambda>r. ExpirationDate r = 18) example_data = example_data"
  by code_simp

lemma example_exit: "get_exit_date example_days 1 1 18 5 = Inr 8"
  by code_simp

lemma example_prices: "get_underlying_prices example_data example_data 18 1 = Inr (100, 100)"
  by code_simp

lemma example_leg:
  "get_single_contract_info example_data 1 8 100 l (strike_prop_map (1/10) l)
     = Inr (example_contracts l)"
  by (cases l; hypsubst; code_simp)

lemma example_all_legs:
  "get_all_contract_info example_data 1 8 100 (1/10) = Inr example_contracts"
proof -
  have "(\<lambda>l. case l of OTM_Put \<Rightarrow> example_contracts OTM_Put | ATM_Put \<Rightarrow> example_contracts ATM_Put
            | ATM_Call \<Rightarrow> example_contracts ATM_Call | OTM_Call \<Rightarrow> example_contracts OTM_Call)
        = example_contracts"
    by (rule ext) (simp split: leg.split)
  then show ?thesis
    by (simp add: get_all_contract_info_def and_then_def example_leg)
qed

lemma example_init: "init example_data 1 example_days False 5 (1/10) 10 = Inr example_bt"
  by (simp add: init_def and_then_def example_fix_edate example_expiry example_chain
        example_exit example_prices example_all_legs example_bt_def)

section \<open>The size of the trade and the exit ratios\<close>

lemma min_entry_size_four:
  "min_entry_size bt =
     min (Entry_Size (contracts bt OTM_Put))
       (min (Entry_Size (contracts bt ATM_Put))
         (min (Entry_Size (contracts bt ATM_Call)) (Entry_Size (contracts bt OTM_Call))))"
  by (simp add: min_entry_size_def legs_def)

lemma example_min_entry_size: "min_entry_size example_bt = 8"
  by (simp add: min_entry_size_four example_bt_def example_contracts_def)

lemma example_sizes_nonneg:
  "\<forall>l. 0 \<le> Entry_Size (contracts example_bt l) \<and> 0 \<le> Exit_Size (contracts example_bt l)"
proof
  fix l
  show "0 \<le> Entry_Size (contracts example_bt l) \<and> 0 \<le> Exit_Size (contracts example_bt l)"
    by (cases l) (simp_all add: example_bt_def example_contracts_def)
qed

lemma ratio_range:
  fixes x m :: int
  assumes "0 \<le> x" "0 < m"
  shows "0 \<le> min 1 (real_of_int x / real_of_int m) \<and> min 1 (real_of_int x / real_of_int m) \<le> 1"
  using assms by simp

lemma mean_of_four_in_unit:
  fixes a b c d :: real
  assumes "0 \<le> a \<and> a \<le> 1" "0 \<le> b \<and> b \<le> 1" "0 \<le> c \<and> c \<le> 1" "0 \<le> d \<and> d \<le> 1"
  shows "0 \<le> (a + b + c + d) / 4 \<and> (a + b + c + d) / 4 \<le> 1"
  using assms by simp

section \<open>The legs of a constructed event\<close>

lemma all_contract_info_leg:
  assumes "get_all_contract_info chain anchor exit_day fp ww = Inr cs"
  shows "get_single_contract_info chain anchor exit_day fp l (strike_prop_map ww l) = Inr (cs l)"
  using assms by (cases l) (auto simp: get_all_contract_info_def and_then_Inr)

lemma entry_row_facts:
  assumes "entry_row chain anchor flag sp = Inr entry"
  shows "entry \<in> set chain \<and> DataDate entry = anchor \<and> PutCall entry = flag"
proof -
  let ?rows = "filter (\<lambda>r. DataDate r = anchor) (filter (\<lambda>r. PutCall r = flag) chain)"
  from assms have ne: "?rows \<noteq> []" and e: "iloc_argmin (\<lambda>r. \<bar>StrikeProp r - sp\<bar>) ?rows = Inr entry"
    by (auto simp: entry_row_def Let_def split: if_splits)
  from iloc_argmin_spec[OF ne, of "\<lambda>r. \<bar>StrikeProp r - sp\<bar>"] e have "entry \<in> set ?rows" by auto
  then show ?thesis by auto
qed

lemma exit_row_facts:
  assumes "exit_row chain exit_day flag entry = Inr x"
  shows "x \<in> set chain \<and> DataDate x = exit_day \<and> PutCall x = flag
         \<and> StrikePrice x = StrikePrice entry"
proof -
  let ?rows = "filter (\<lambda>r. DataDate r = exit_day \<and> StrikePrice r = StrikePrice entry)
                 (filter (\<lambda>r. PutCall r = flag) chain)"
  from assms have ne: "?rows \<noteq> []" and x: "x = hd ?rows"
    by (auto simp: exit_row_def Let_def split: if_splits)
  have "x \<in> set ?rows" unfolding x by (rule hd_in_set[OF ne])
  then show ?thesis by auto
qed

lemma single_contract_fields:
  assumes "get_single_contract_info chain anchor exit_day fp l sp = Inr c"
  shows "\<exists>entry x.
           entry_row chain anchor (flag_of l) sp = Inr entry \<and>
           exit_row chain exit_day (flag_of l) entry = Inr x \<and>
           Entry_Price c = (if wing l then three_quarter entry
                            else max (intrinsic_value entry (flag_of l)) (quarter entry)) \<and>
           Exit_Price c = (if wing l then max (intrinsic_value x (flag_of l)) (quarter x)
                           else three_quarter x) \<and>
           Entry_Size c = (if wing l then AskSize entry else BidSize entry) \<and>
           Exit_Size c = (if wing l then BidSize x else AskSize x)"
  using assms
  by (auto simp: get_single_contract_info_def and_then_Inr Let_def)

lemma wing_cases: "wing OTM_Put" "wing OTM_Call" "\<not> wing ATM_Put" "\<not> wing ATM_Call"
  by (simp_all add: wing_def)

section \<open>The loop of the profit\<close>

lemma curr_pnl_leg_value:
  "curr_pnl bt n l = (if wing l then 1 else - 1) * leg_value (contracts bt l) n"
proof -
  have "n - max 0 (n - Exit_Size (contracts bt l)) = min n (Exit_Size (contracts bt l))"
    by simp
  then show ?thesis
    by (simp add: curr_pnl_def leg_value_def Let_def)
qed

lemma pnl_loop:
  "foldl (\<lambda>total_pnl l. total_pnl + curr_pnl bt n l) 0 legs * 100 = butterfly_value bt n"
  by (simp add: legs_def curr_pnl_leg_value wing_cases butterfly_value_def)

lemma py_int_nonneg: "0 \<le> x \<Longrightarrow> py_int x = \<lfloor>x\<rfloor>"
  by (simp add: py_int_def)

lemma example_butterfly_value_8: "butterfly_value example_bt 8 = - 225"
  by (simp add: butterfly_value_def leg_value_def example_bt_def example_contracts_def)

section \<open>The anchor of a constructed event\<close>

lemma init_anchor:
  assumes "init option_data earnings_date trading_days before_market_open holding_period ww
             min_days_expiry = Inr bt"
  shows "py_index (tdays bt) (edate_idx bt) = Inr (edate bt)"
  using fix_edate_anchor[OF init_fields(2)[OF assms]] init_fields(1)[OF assms] by simp

lemma example_method: "curve_method quad_fit ''discrete'' = Inr curve_calc_disc"
  by (simp add: curve_method_def)

lemma example_anchor_curve:
  "curve_calc_disc (filter (\<lambda>r. DataDate r = 1) (filter liquid example_data)) = Inr (Num (23/20))"
  by code_simp

section \<open>The loops of the batch runner\<close>

lemma run_funcs_cells:
  assumes "\<forall>m \<in> set funcs. \<forall>e. m bt = Inl e \<longrightarrow> e = DataRange"
  shows "\<exists>row'. run_funcs bt funcs i row = Inr row' \<and>
           (\<forall>j. row' j =
              (if i \<le> j \<and> j < i + length funcs
               then (case (funcs ! (j - i)) bt of Inl e \<Rightarrow> row j | Inr v \<Rightarrow> Some v)
               else row j))"
  using assms
proof (induction funcs arbitrary: i row)
  case Nil
  then show ?case by auto
next
  case (Cons m ms)
  then have rest: "\<forall>m \<in> set ms. \<forall>e. m bt = Inl e \<longrightarrow> e = DataRange" by simp
  show ?case
  proof (cases "m bt")
    case (Inl e)
    with Cons.prems have e: "e = DataRange" by simp
    from Cons.IH[OF rest, of "Suc i" row] obtain row' where
      r: "run_funcs bt ms (Suc i) row = Inr row'" and
      c: "\<forall>j. row' j = (if Suc i \<le> j \<and> j < Suc i + length ms
               then (case (ms ! (j - Suc i)) bt of Inl e \<Rightarrow> row j | Inr v \<Rightarrow> Some v)
               else row j)" by blast
    have "\<forall>j. row' j = (if i \<le> j \<and> j < i + length (m # ms)
               then (case ((m # ms) ! (j - i)) bt of Inl e \<Rightarrow> row j | Inr v \<Rightarrow> Some v)
               else row j)"
    proof
      fix j
      show "row' j = (if i \<le> j \<and> j < i + length (m # ms)
               then (case ((m # ms) ! (j - i)) bt of Inl e \<Rightarrow> row j | Inr v \<Rightarrow> Some v)
               else row j)"
      proof (cases "j = i")
        case True
        with c Inl show ?thesis by simp
      next
        case False
        then have "i \<le> j \<Longrightarrow> j - i = Suc (j - Suc i)" by arith
        then have "i \<le> j \<Longrightarrow> (m # ms) ! (j - i) = ms ! (j - Suc i)" by simp
        with c False show ?thesis by (auto simp: Suc_le_eq)
      qed
    qed
    with r Inl e show ?thesis by simp
  next
    case (Inr v)
    from Cons.IH[OF rest, of "Suc i" "row(i := Some v)"] obtain row' where
      r: "run_funcs bt ms (Suc i) (row(i := Some v)) = Inr row'" and
      c: "\<forall>j. row' j = (if Suc i \<le> j \<and> j < Suc i + length ms
               then (case (ms ! (j - Suc i)) bt of Inl e \<Rightarrow> (row(i := Some v)) j | Inr v \<Rightarrow> Some v)
               else (row(i := Some v)) j)" by blast
    have "\<forall>j. row' j = (if i \<le> j \<and> j < i + length (m # ms)
               then (case ((m # ms) ! (j - i)) bt of Inl e \<Rightarrow> row j | Inr v \<Rightarrow> Some v)
               else row j)"
    proof
      fix j
      show "row' j = (if i \<le> j \<and> j < i + length (m # ms)
               then (case ((m # ms) ! (j - i)) bt of Inl e \<Rightarrow> row j | Inr v \<Rightarrow> Some v)
               else row j)"
      proof (cases "j = i")
        case True
        with c Inr show ?thesis by simp
      next
        case False
        then have "i \<le> j \<Longrightarrow> j - i = Suc (j - Suc i)" by arith
        then have "i \<le> j \<Longrightarrow> (m # ms) ! (j - i) = ms ! (j - Suc i)" by simp
        with c False show ?thesis by (auto simp: Suc_le_eq split: sum.splits)
      qed
    qed
    with r Inr show ?thesis by simp
  qed
qed

lemma run_funcs_abort:
  assumes "\<forall>m \<in> set pre. \<forall>e. m bt = Inl e \<longrightarrow> e = DataRange"
      and "m bt = Inl e" and "e \<noteq> DataRange"
  shows "run_funcs bt (pre @ m # post) i row = Inl e"
  using assms
proof (induction pre arbitrary: i row)
  case Nil
  then show ?case by simp
next
  case (Cons p ps)
  then show ?case by (cases "p bt") auto
qed

lemma run_funcs_error: "run_funcs bt funcs i row = Inl e \<Longrightarrow> e \<noteq> DataRange"
proof (induction funcs arbitrary: i row)
  case Nil
  then show ?case by simp
next
  case (Cons m ms)
  then show ?case by (cases "m bt") (auto split: if_splits)
qed

lemma backtest_loop_cells:
  assumes "distinct evs"
      and "\<forall>ev \<in> set evs. \<forall>e. new_bt ev = Inl e \<longrightarrow> e = DataRange"
      and "\<forall>ev \<in> set evs. \<forall>bt. new_bt ev = Inr bt \<longrightarrow>
             (\<forall>m \<in> set funcs. \<forall>e. m bt = Inl e \<longrightarrow> e = DataRange)"
  shows "\<exists>out'. backtest_loop new_bt funcs evs out = Inr out' \<and>
           (\<forall>ev i. out' ev i =
              (if ev \<in> set evs \<and> i < length funcs
               then (case new_bt ev of
                       Inl e \<Rightarrow> out ev i
                     | Inr bt \<Rightarrow> (case (funcs ! i) bt of Inl e \<Rightarrow> out ev i | Inr v \<Rightarrow> Some v))
               else out ev i))"
  using assms
proof (induction evs arbitrary: out)
  case Nil
  then show ?case by auto
next
  case (Cons ev rest)
  then have d: "distinct rest" and notin: "ev \<notin> set rest"
    and h1: "\<forall>ev \<in> set rest. \<forall>e. new_bt ev = Inl e \<longrightarrow> e = DataRange"
    and h2: "\<forall>ev \<in> set rest. \<forall>bt. new_bt ev = Inr bt \<longrightarrow>
             (\<forall>m \<in> set funcs. \<forall>e. m bt = Inl e \<longrightarrow> e = DataRange)"
    by auto
  show ?case
  proof (cases "new_bt ev")
    case (Inl e)
    with Cons.prems have e: "e = DataRange" by simp
    from Cons.IH[OF d h1 h2, of out] obtain out' where
      r: "backtest_loop new_bt funcs rest out = Inr out'" and
      c: "\<forall>ev i. out' ev i =
              (if ev \<in> set rest \<and> i < length funcs
               then (case new_bt ev of
                       Inl e \<Rightarrow> out ev i
                     | Inr bt \<Rightarrow> (case (funcs ! i) bt of Inl e \<Rightarrow> out ev i | Inr v \<Rightarrow> Some v))
               else out ev i)" by blast
    from r Inl e have "backtest_loop new_bt funcs (ev # rest) out = Inr out'" by simp
    moreover from c Inl notin have "\<forall>ev' i. out' ev' i =
              (if ev' \<in> set (ev # rest) \<and> i < length funcs
               then (case new_bt ev' of
                       Inl e \<Rightarrow> out ev' i
                     | Inr bt \<Rightarrow> (case (funcs ! i) bt of Inl e \<Rightarrow> out ev' i | Inr v \<Rightarrow> Some v))
               else out ev' i)" by auto
    ultimately show ?thesis by blast
  next
    case (Inr bt)
    with Cons.prems have "\<forall>m \<in> set funcs. \<forall>e. m bt = Inl e \<longrightarrow> e = DataRange" by simp
    from run_funcs_cells[OF this, of 0 "out ev"] obtain row' where
      rr: "run_funcs bt funcs 0 (out ev) = Inr row'" and
      rc: "\<forall>j. row' j = (if j < length funcs
               then (case (funcs ! j) bt of Inl e \<Rightarrow> out ev j | Inr v \<Rightarrow> Some v)
               else out ev j)" by auto
    from Cons.IH[OF d h1 h2, of "out(ev := row')"] obtain out' where
      r: "backtest_loop new_bt funcs rest (out(ev := row')) = Inr out'" and
      c: "\<forall>ev' i. out' ev' i =
              (if ev' \<in> set rest \<and> i < length funcs
               then (case new_bt ev' of
                       Inl e \<Rightarrow> (out(ev := row')) ev' i
                     | Inr bt \<Rightarrow> (case (funcs ! i) bt of Inl e \<Rightarrow> (out(ev := row')) ev' i
                                  | Inr v \<Rightarrow> Some v))
               else (out(ev := row')) ev' i)" by blast
    from r rr Inr have "backtest_loop new_bt funcs (ev # rest) out = Inr out'" by simp
    moreover have "\<forall>ev' i. out' ev' i =
              (if ev' \<in> set (ev # rest) \<and> i < length funcs
               then (case new_bt ev' of
                       Inl e \<Rightarrow> out ev' i
                     | Inr bt \<Rightarrow> (case (funcs ! i) bt of Inl e \<Rightarrow> out ev' i | Inr v \<Rightarrow> Some v))
               else out ev' i)"
    proof (intro allI)
      fix ev' i
      show "out' ev' i =
              (if ev' \<in> set (ev # rest) \<and> i < length funcs
               then (case new_bt ev' of
                       Inl e \<Rightarrow> out ev' i
                     | Inr bt \<Rightarrow> (case (funcs ! i) bt of Inl e \<Rightarrow> out ev' i | Inr v \<Rightarrow> Some v))
               else out ev' i)"
      proof (cases "ev' = ev")
        case True
        with c notin rc Inr show ?thesis by (auto split: sum.splits)
      next
        case False
        with c show ?thesis by (simp split: sum.splits)
      qed
    qed
    ultimately show ?thesis by blast
  qed
qed

lemma backtest_loop_abort_constructor:
  assumes "\<forall>ev \<in> set pre. \<forall>e. new_bt ev = Inl e \<longrightarrow> e = DataRange"
      and "\<forall>ev \<in> set pre. \<forall>bt. new_bt ev = Inr bt \<longrightarrow>
             (\<forall>m \<in> set funcs. \<forall>e. m bt = Inl e \<longrightarrow> e = DataRange)"
      and "new_bt ev = Inl e" and "e \<noteq> DataRange"
  shows "backtest_loop new_bt funcs (pre @ ev # post) out = Inl e"
  using assms
proof (induction pre arbitrary: out)
  case Nil
  then show ?case by simp
next
  case (Cons p ps)
  show ?case
  proof (cases "new_bt p")
    case (Inl e')
    with Cons show ?thesis by simp
  next
    case (Inr bt)
    with Cons.prems have "\<forall>m \<in> set funcs. \<forall>e. m bt = Inl e \<longrightarrow> e = DataRange" by simp
    from run_funcs_cells[OF this, of 0 "out p"] obtain row' where
      "run_funcs bt funcs 0 (out p) = Inr row'" by blast
    with Inr Cons show ?thesis by simp
  qed
qed

lemma backtest_loop_abort_metric:
  assumes "\<forall>ev \<in> set pre. \<forall>e. new_bt ev = Inl e \<longrightarrow> e = DataRange"
      and "\<forall>ev \<in> set pre. \<forall>bt. new_bt ev = Inr bt \<longrightarrow>
             (\<forall>m \<in> set (fpre @ m # fpost). \<forall>e. m bt = Inl e \<longrightarrow> e = DataRange)"
      and "new_bt ev = Inr bt"
      and "\<forall>m \<in> set fpre. \<forall>e. m bt = Inl e \<longrightarrow> e = DataRange"
      and "m bt = Inl e" and "e \<noteq> DataRange"
  shows "backtest_loop new_bt (fpre @ m # fpost) (pre @ ev # post) out = Inl e"
  using assms
proof (induction pre arbitrary: out)
  case Nil
  then show ?case by (simp add: run_funcs_abort)
next
  case (Cons p ps)
  show ?case
  proof (cases "new_bt p")
    case (Inl e')
    with Cons show ?thesis by simp
  next
    case (Inr bt')
    with Cons.prems have "\<forall>m \<in> set (fpre @ m # fpost). \<forall>e. m bt' = Inl e \<longrightarrow> e = DataRange" by simp
    from run_funcs_cells[OF this, of 0 "out p"] obtain row' where
      "run_funcs bt' (fpre @ m # fpost) 0 (out p) = Inr row'" by blast
    with Inr Cons show ?thesis by simp
  qed
qed

section \<open>More events on the example data\<close>

lemma example_late_event: "init example_data 18 example_days False hp (1/10) 10 = Inl DataRange"
proof -
  have "fix_edate example_days 18 False = Inr (14, 18)" by code_simp
  moreover have "get_expiry example_days 14 example_data 10 = Inl DataRange" by code_simp
  ultimately show ?thesis by (simp add: init_def and_then_def)
qed

lemma example_long_holding:
  "init example_data 1 example_days False 20 (1/10) 10 = Inl IndexOutOfBounds"
proof -
  have "get_exit_date example_days 1 1 18 20 = Inl IndexOutOfBounds" by code_simp
  then show ?thesis
    by (simp add: init_def and_then_def example_fix_edate example_expiry example_chain)
qed

lemma example_pnl: "pnl example_bt 1 = - 225"
  by (simp add: pnl_def Let_def pnl_loop example_min_entry_size py_int_def
        example_butterfly_value_8)

lemma example_after_lookup:
  "curve_changes_with calc example_bt 5 14 = Inl IndexOutOfBounds"
  by (simp add: curve_changes_with_def and_then_def py_index_def example_bt_def
        example_days_def)

lemma example_calendar: "unique (map DataDate example_data) = example_days"
  by code_simp

lemma all_contract_info_ok:
  assumes "\<forall>l. \<not> isl (get_single_contract_info chain anchor exit_day fp l (strike_prop_map ww l))"
  shows "\<exists>cs. get_all_contract_info chain anchor exit_day fp ww = Inr cs"
proof -
  from assms have "\<forall>l. \<exists>c. get_single_contract_info chain anchor exit_day fp l
                               (strike_prop_map ww l) = Inr c"
    by (metis sum.collapse(2))
  then obtain c1 c2 c3 c4 where
    "get_single_contract_info chain anchor exit_day fp OTM_Put (strike_prop_map ww OTM_Put) = Inr c1"
    "get_single_contract_info chain anchor exit_day fp ATM_Put (strike_prop_map ww ATM_Put) = Inr c2"
    "get_single_contract_info chain anchor exit_day fp ATM_Call (strike_prop_map ww ATM_Call) = Inr c3"
    "get_single_contract_info chain anchor exit_day fp OTM_Call (strike_prop_map ww OTM_Call) = Inr c4"
    by metis
  then show ?thesis by (simp add: get_all_contract_info_def and_then_def)
qed

lemma example_end_event:
  "\<exists>bt. init example_data 15 example_days False 5 (1/10) 3 = Inr bt \<and>
        tdays bt = example_days \<and> edate_idx bt = 11 \<and> edate bt = 15 \<and>
        expiry bt = 18 \<and> exit_date bt = 17"
proof -
  have legs: "\<forall>l. \<not> isl (get_single_contract_info example_data 15 17 100 l
                            (strike_prop_map (1/10) l))"
  proof
    fix l
    show "\<not> isl (get_single_contract_info example_data 15 17 100 l (strike_prop_map (1/10) l))"
      by (cases l; hypsubst; code_simp)
  qed
  from all_contract_info_ok[OF legs] obtain cs where
    cs: "get_all_contract_info example_data 15 17 100 (1/10) = Inr cs" by blast
  have "fix_edate example_days 15 False = Inr (11, 15)" by code_simp
  moreover have "get_expiry example_days 11 example_data 3 = Inr 18" by code_simp
  moreover have "get_exit_date example_days 11 15 18 5 = Inr 17" by code_simp
  moreover have "get_underlying_prices example_data example_data 18 15 = Inr (100, 100)"
    by code_simp
  ultimately show ?thesis
    using cs by (simp add: init_def and_then_def example_chain)
qed

lemma example_first_day_event:
  "\<exists>bt. init example_data 0 example_days True 5 (1/10) 10 = Inr bt \<and>
        tdays bt = example_days \<and> edate_idx bt = - 1 \<and> edate bt = 18 \<and>
        expiry bt = 18 \<and> exit_date bt = 17"
proof -
  have legs: "\<forall>l. \<not> isl (get_single_contract_info example_data 18 17 100 l
                            (strike_prop_map (1/10) l))"
  proof
    fix l
    show "\<not> isl (get_single_contract_info example_data 18 17 100 l (strike_prop_map (1/10) l))"
      by (cases l; hypsubst; code_simp)
  qed
  from all_contract_info_ok[OF legs] obtain cs where
    cs: "get_all_contract_info example_data 18 17 100 (1/10) = Inr cs" by blast
  have "fix_edate example_days 0 True = Inr (- 1, 18)" by code_simp
  moreover have "get_expiry example_days (- 1) example_data 10 = Inr 18" by code_simp
  moreover have "get_exit_date example_days (- 1) 18 18 5 = Inr 17" by code_simp
  moreover have "get_underlying_prices example_data example_data 18 18 = Inr (100, 100)"
    by code_simp
  ultimately show ?thesis
    using cs by (simp add: init_def and_then_def example_chain)
qed

lemma example_long_hold_event:
  "\<exists>bt. init example_data 1 example_days False 13 (1/10) 10 = Inr bt \<and>
        tdays bt = example_days \<and> edate_idx bt = 1 \<and> edate bt = 1 \<and>
        expiry bt = 18 \<and> exit_date bt = 18"
proof -
  have legs: "\<forall>l. \<not> isl (get_single_contract_info example_data 1 18 100 l
                            (strike_prop_map (1/10) l))"
  proof
    fix l
    show "\<not> isl (get_single_contract_info example_data 1 18 100 l (strike_prop_map (1/10) l))"
      by (cases l; hypsubst; code_simp)
  qed
  from all_contract_info_ok[OF legs] obtain cs where
    cs: "get_all_contract_info example_data 1 18 100 (1/10) = Inr cs" by blast
  have "get_exit_date example_days 1 1 18 13 = Inr 18" by code_simp
  then show ?thesis
    using cs
    by (simp add: init_def and_then_def example_fix_edate example_expiry example_chain
          example_prices)
qed

section \<open>Calendar lookups\<close>

lemma py_index_wraps:
  assumes "i < 0" "- int (length xs) \<le> i"
  shows "py_index xs i = Inr (xs ! nat (int (length xs) + i))"
  using assms by (simp add: py_index_def)

lemma py_index_nonneg:
  assumes "py_index xs i = Inr x" "0 \<le> i"
  shows "nat i < length xs \<and> x = xs ! nat i"
  using assms by (auto simp: py_index_def split: if_splits)

lemma example_curve_changes:
  "curve_changes_with curve_calc_disc example_bt 5 5 = Inr (0, 0)"
  by code_simp

section \<open>The discrete curvature on example slices\<close>

lemma deep_slice_values:
  "list_all liquid deep_slice \<and> curve_calc_disc deep_slice = Inr (Num (4/3)) \<and>
   curve_calc_disc_claimed deep_slice = Inr (Num 1)"
  by code_simp

section \<open>Facts for the trade-level metrics\<close>

lemma map_sum_Inr: "map_sum id f m = Inr y \<Longrightarrow> \<exists>x. m = Inr x \<and> f x = y"
  by (cases m) auto

lemma min_entry_size_pairs:
  "min_entry_size bt =
     min (min (Entry_Size (contracts bt OTM_Put)) (Entry_Size (contracts bt ATM_Put)))
         (min (Entry_Size (contracts bt ATM_Call)) (Entry_Size (contracts bt OTM_Call)))"
  by (simp add: min_entry_size_four min.assoc)

lemma avg_exit_size_ratio_via_min_entry_size:
  assumes sizes: "\<forall>l. 0 \<le> Entry_Size (contracts bt l) \<and> 0 \<le> Exit_Size (contracts bt l)"
  shows "(min_entry_size bt = 0 \<longrightarrow> avg_exit_size_ratio bt = NaN) \<and>
         (min_entry_size bt \<noteq> 0 \<longrightarrow>
            (\<exists>v. avg_exit_size_ratio bt = Num v \<and>
                 v = (min 1 (real_of_int (Exit_Size (contracts bt OTM_Put))
                               / real_of_int (min_entry_size bt))
                    + min 1 (real_of_int (Exit_Size (contracts bt ATM_Put))
                               / real_of_int (min_entry_size bt))
                    + min 1 (real_of_int (Exit_Size (contracts bt ATM_Call))
                               / real_of_int (min_entry_size bt))
                    + min 1 (real_of_int (Exit_Size (contracts bt OTM_Call))
                               / real_of_int (min_entry_size bt))) / 4 \<and>
                 0 \<le> v \<and> v \<le> 1))"
proof -
  have m0: "0 \<le> min_entry_size bt"
    using sizes by (simp add: min_entry_size_four)
  show ?thesis
  proof (cases "min_entry_size bt = 0")
    case True
    then show ?thesis by (simp add: avg_exit_size_ratio_def)
  next
    case False
    with m0 have pos: "0 < min_entry_size bt" by simp
    have r: "\<And>l. 0 \<le> min 1 (real_of_int (Exit_Size (contracts bt l))
                            / real_of_int (min_entry_size bt))
             \<and> min 1 (real_of_int (Exit_Size (contracts bt l))
                            / real_of_int (min_entry_size bt)) \<le> 1"
      using sizes pos ratio_range by blast
    have v: "avg_exit_size_ratio bt =
               Num ((min 1 (real_of_int (Exit_Size (contracts bt OTM_Put))
                               / real_of_int (min_entry_size bt))
                    + min 1 (real_of_int (Exit_Size (contracts bt ATM_Put))
                               / real_of_int (min_entry_size bt))
                    + min 1 (real_of_int (Exit_Size (contracts bt ATM_Call))
                               / real_of_int (min_entry_size bt))
                    + min 1 (real_of_int (Exit_Size (contracts bt OTM_Call))
                               / real_of_int (min_entry_size bt))) / 4)"
      using False by (simp add: avg_exit_size_ratio_def legs_def Let_def add.assoc)
    from mean_of_four_in_unit[OF r[of OTM_Put] r[of ATM_Put] r[of ATM_Call] r[of OTM_Call]]
      v False
    show ?thesis by blast
  qed
qed

lemma week_zero_size_event:
  "\<exists>bt. init (week_data (Num (2/5)) 0) 0 week_days False 2 (1/10) 3 = Inr bt \<and>
        map (\<lambda>l. (Entry_Size (contracts bt l), Exit_Size (contracts bt l))) legs
          = [(10, 12), (20, 25), (18, 22), (0, 5)]"
proof -
  have "map_sum id
          (\<lambda>bt. map (\<lambda>l. (Entry_Size (contracts bt l), Exit_Size (contracts bt l))) legs)
          (init (week_data (Num (2/5)) 0) 0 week_days False 2 (1/10) 3)
        = Inr [(10, 12), (20, 25), (18, 22), (0, 5)]"
    by code_simp
  from map_sum_Inr[OF this] show ?thesis .
qed

lemma butterfly_value_legs:
  "butterfly_value bt n =
     100 * (((Exit_Price (contracts bt OTM_Put) - Entry_Price (contracts bt OTM_Put))
               * real_of_int (min n (Exit_Size (contracts bt OTM_Put)))
             + (Expiration_Value (contracts bt OTM_Put) - Entry_Price (contracts bt OTM_Put))
               * real_of_int (max 0 (n - Exit_Size (contracts bt OTM_Put))))
          - ((Exit_Price (contracts bt ATM_Put) - Entry_Price (contracts bt ATM_Put))
               * real_of_int (min n (Exit_Size (contracts bt ATM_Put)))
             + (Expiration_Value (contracts bt ATM_Put) - Entry_Price (contracts bt ATM_Put))
               * real_of_int (max 0 (n - Exit_Size (contracts bt ATM_Put))))
          - ((Exit_Price (contracts bt ATM_Call) - Entry_Price (contracts bt ATM_Call))
               * real_of_int (min n (Exit_Size (contracts bt ATM_Call)))
             + (Expiration_Value (contracts bt ATM_Call) - Entry_Price (contracts bt ATM_Call))
               * real_of_int (max 0 (n - Exit_Size (contracts bt ATM_Call))))
          + ((Exit_Price (contracts bt OTM_Call) - Entry_Price (contracts bt OTM_Call))
               * real_of_int (min n (Exit_Size (contracts bt OTM_Call)))
             + (Expiration_Value (contracts bt OTM_Call) - Entry_Price (contracts bt OTM_Call))
               * real_of_int (max 0 (n - Exit_Size (contracts bt OTM_Call)))))"
  unfolding butterfly_value_def leg_value_def ..

lemma pnl_unfolded:
  "pnl bt r =
     (if py_int (real_of_int (min_entry_size bt) * r) = 0 then 0
      else butterfly_value bt (py_int (real_of_int (min_entry_size bt) * r)))"
  by (simp add: pnl_def Let_def pnl_loop)

lemma week_event:
  "\<exists>bt. init (week_data (Num (2/5)) 8) 0 week_days False 2 (1/10) 3 = Inr bt \<and>
        edate bt = 0 \<and> exit_date bt = 2 \<and> df bt = week_data (Num (2/5)) 8 \<and>
        map (contracts bt) legs = week_contracts"
proof -
  have "map_sum id (\<lambda>bt. (edate bt, exit_date bt, df bt, map (contracts bt) legs))
          (init (week_data (Num (2/5)) 8) 0 week_days False 2 (1/10) 3)
        = Inr (0, 2, week_data (Num (2/5)) 8, week_contracts)"
    by code_simp
  from map_sum_Inr[OF this] obtain bt where
    i: "init (week_data (Num (2/5)) 8) 0 week_days False 2 (1/10) 3 = Inr bt" and
    t: "(edate bt, exit_date bt, df bt, map (contracts bt) legs)
          = (0, 2, week_data (Num (2/5)) 8, week_contracts)"
    by (elim exE conjE) (rule that)
  from t have "edate bt = 0" "exit_date bt = 2" "df bt = week_data (Num (2/5)) 8"
    "map (contracts bt) legs = week_contracts" by simp_all
  with i show ?thesis by blast
qed

lemma week_legs:
  assumes "map (contracts bt) legs = week_contracts"
  shows "contracts bt OTM_Put = week_contracts ! 0" "contracts bt ATM_Put = week_contracts ! 1"
        "contracts bt ATM_Call = week_contracts ! 2" "contracts bt OTM_Call = week_contracts ! 3"
proof -
  have "map (contracts bt) legs ! 0 = contracts bt OTM_Put"
       "map (contracts bt) legs ! 1 = contracts bt ATM_Put"
       "map (contracts bt) legs ! 2 = contracts bt ATM_Call"
       "map (contracts bt) legs ! 3 = contracts bt OTM_Call"
    by (simp_all add: legs_def)
  with assms show "contracts bt OTM_Put = week_contracts ! 0"
    "contracts bt ATM_Put = week_contracts ! 1"
    "contracts bt ATM_Call = week_contracts ! 2" "contracts bt OTM_Call = week_contracts ! 3"
    by simp_all
qed

lemma example_entry_sizes_nonneg: "\<forall>l. 0 \<le> Entry_Size (contracts example_bt l)"
  using example_sizes_nonneg by blast

lemma entry_row_closest:
  assumes "entry_row chain anchor flag sp = Inr entry"
  shows "\<forall>r \<in> set chain. DataDate r = anchor \<and> PutCall r = flag \<longrightarrow>
            \<bar>StrikeProp entry - sp\<bar> \<le> \<bar>StrikeProp r - sp\<bar>"
proof -
  let ?rows = "filter (\<lambda>r. DataDate r = anchor) (filter (\<lambda>r. PutCall r = flag) chain)"
  from assms have ne: "?rows \<noteq> []" and e: "iloc_argmin (\<lambda>r. \<bar>StrikeProp r - sp\<bar>) ?rows = Inr entry"
    by (auto simp: entry_row_def Let_def split: if_splits)
  from iloc_argmin_spec[OF ne, of "\<lambda>r. \<bar>StrikeProp r - sp\<bar>"] e
  have "\<forall>r \<in> set ?rows. \<bar>StrikeProp entry - sp\<bar> \<le> \<bar>StrikeProp r - sp\<bar>" by auto
  then show ?thesis by simp
qed

lemma week_rows:
  "entry_row (week_data (Num (2/5)) 8) 0 (flag_of OTM_Put) (strike_prop_map (1/10) OTM_Put)
     = Inr (quote 4 0 Put 90 100 1 (6/5) 12 10 (Num (2/5)) (- 1/5))"
  "exit_row (week_data (Num (2/5)) 8) 2 (flag_of OTM_Put)
     (quote 4 0 Put 90 100 1 (6/5) 12 10 (Num (2/5)) (- 1/5))
     = Inr (quote 4 2 Put 90 80 9 (46/5) 12 10 (Num (1/2)) (- 9/10))"
  "entry_row (week_data (Num (2/5)) 8) 0 (flag_of ATM_Put) (strike_prop_map (1/10) ATM_Put)
     = Inr (quote 4 0 Put 102 100 (3/2) (19/10) 20 25 (Num (3/10)) (- 11/20))"
  "exit_row (week_data (Num (2/5)) 8) 2 (flag_of ATM_Put)
     (quote 4 0 Put 102 100 (3/2) (19/10) 20 25 (Num (3/10)) (- 11/20))
     = Inr (quote 4 2 Put 102 80 22 23 20 25 (Num (1/2)) (- 19/20))"
  "entry_row (week_data (Num (2/5)) 8) 0 (flag_of ATM_Call) (strike_prop_map (1/10) ATM_Call)
     = Inr (quote 4 0 Call 98 100 3 (17/5) 18 22 (Num (3/10)) (11/20))"
  "exit_row (week_data (Num (2/5)) 8) 2 (flag_of ATM_Call)
     (quote 4 0 Call 98 100 3 (17/5) 18 22 (Num (3/10)) (11/20))
     = Inr (quote 4 2 Call 98 80 (1/10) (3/10) 18 22 (Num (1/2)) (1/20))"
  "entry_row (week_data (Num (2/5)) 8) 0 (flag_of OTM_Call) (strike_prop_map (1/10) OTM_Call)
     = Inr (quote 4 0 Call 110 100 (1/2) (7/10) 5 8 (Num (7/20)) (1/5))"
  "exit_row (week_data (Num (2/5)) 8) 2 (flag_of OTM_Call)
     (quote 4 0 Call 110 100 (1/2) (7/10) 5 8 (Num (7/20)) (1/5))
     = Inr (quote 4 2 Call 110 80 (1/20) (1/10) 5 8 (Num (11/20)) (1/50))"
  by code_simp+

section \<open>The week without an implied volatility\<close>

lemma nan_week_init:
  "init (week_data NaN 8) 0 week_days False 2 (1/10) 3 = Inr nan_week_bt"
proof -
  have "map_sum id
          (\<lambda>bt. (tdays bt, edate bt, edate_idx bt, expiry bt, df bt, exit_date bt,
                 entry_price bt, final_price bt, wing_width bt, map (contracts bt) legs))
          (init (week_data NaN 8) 0 week_days False 2 (1/10) 3)
        = Inr (tdays nan_week_bt, edate nan_week_bt, edate_idx nan_week_bt, expiry nan_week_bt,
               df nan_week_bt, exit_date nan_week_bt, entry_price nan_week_bt,
               final_price nan_week_bt, wing_width nan_week_bt,
               map (contracts nan_week_bt) legs)"
    by code_simp
  from map_sum_Inr[OF this] obtain bt where
    i: "init (week_data NaN 8) 0 week_days False 2 (1/10) 3 = Inr bt" and
    t: "(tdays bt, edate bt, edate_idx bt, expiry bt, df bt, exit_date bt,
         entry_price bt, final_price bt, wing_width bt, map (contracts bt) legs)
        = (tdays nan_week_bt, edate nan_week_bt, edate_idx nan_week_bt, expiry nan_week_bt,
           df nan_week_bt, exit_date nan_week_bt, entry_price nan_week_bt,
           final_price nan_week_bt, wing_width nan_week_bt,
           map (contracts nan_week_bt) legs)"
    by (elim exE conjE) (rule that)
  have c: "contracts bt = contracts nan_week_bt"
  proof
    fix l
    from t have "map (contracts bt) legs = map (contracts nan_week_bt) legs" by simp
    then show "contracts bt l = contracts nan_week_bt l"
      by (cases l) (simp_all add: legs_def)
  qed
  from t c have "bt = nan_week_bt" by (intro backtester.equality) simp_all
  with i show ?thesis by simp
qed

lemma nan_week_anchor_curve:
  "curve_calc_disc (filter (\<lambda>r. DataDate r = 0) (filter liquid (week_data NaN 8))) = Inr NaN"
  by code_simp

lemma nan_week_curve_changes:
  "curve_changes_with curve_calc_disc nan_week_bt 0 0 = Inr (NaN, NaN)"
  by code_simp

section \<open>Claims\<close>

text \<open>
  Claim C8. For every event whose four legs all have non-negative entry and exit sizes,
  with \<open>m\<close> the minimum of the four entry sizes: \<^verbatim>\<open>avg_exit_size_ratio\<close> returns
  not-a-number when \<open>m\<close> is 0, and otherwise the average over the four legs of
  \<open>min 1 (exit size / m)\<close>, a value between 0 and 1. The example events show both cases:
  a leg with no contracts on offer gives not-a-number although the first leg has 10, and
  the first example gives \<open>29/32\<close> with a minimum of 8 that is not the first leg's size.
\<close>

theorem avg_exit_size_ratio_over_minimum:
  assumes sizes: "\<forall>l. 0 \<le> Entry_Size (contracts bt l) \<and> 0 \<le> Exit_Size (contracts bt l)"
  shows "let m = min (min (Entry_Size (contracts bt OTM_Put)) (Entry_Size (contracts bt ATM_Put)))
                     (min (Entry_Size (contracts bt ATM_Call)) (Entry_Size (contracts bt OTM_Call)))
         in (m = 0 \<longrightarrow> avg_exit_size_ratio bt = NaN) \<and>
            (m \<noteq> 0 \<longrightarrow>
               (\<exists>v. avg_exit_size_ratio bt = Num v \<and>
                    v = (min 1 (real_of_int (Exit_Size (contracts bt OTM_Put)) / real_of_int m)
                       + min 1 (real_of_int (Exit_Size (contracts bt ATM_Put)) / real_of_int m)
                       + min 1 (real_of_int (Exit_Size (contracts bt ATM_Call)) / real_of_int m)
                       + min 1 (real_of_int (Exit_Size (contracts bt OTM_Call)) / real_of_int m))
                      / 4 \<and>
                    0 \<le> v \<and> v \<le> 1))"
  using avg_exit_size_ratio_via_min_entry_size[OF sizes]
  unfolding Let_def min_entry_size_pairs .

theorem avg_exit_size_ratio_over_minimum_witness:
  "(\<exists>bt. init (week_data (Num (2/5)) 0) 0 week_days False 2 (1/10) 3 = Inr bt \<and>
         (\<forall>l. 0 \<le> Entry_Size (contracts bt l) \<and> 0 \<le> Exit_Size (contracts bt l)) \<and>
         Entry_Size (contracts bt OTM_Put) = 10 \<and>
         min (min (Entry_Size (contracts bt OTM_Put)) (Entry_Size (contracts bt ATM_Put)))
             (min (Entry_Size (contracts bt ATM_Call)) (Entry_Size (contracts bt OTM_Call))) = 0 \<and>
         avg_exit_size_ratio bt = NaN) \<and>
   init example_data 1 example_days False 5 (1/10) 10 = Inr example_bt \<and>
   (\<forall>l. 0 \<le> Entry_Size (contracts example_bt l) \<and> 0 \<le> Exit_Size (contracts example_bt l)) \<and>
   Entry_Size (contracts example_bt OTM_Put) = 10 \<and>
   min (min (Entry_Size (contracts example_bt OTM_Put)) (Entry_Size (contracts example_bt ATM_Put)))
       (min (Entry_Size (contracts example_bt ATM_Call)) (Entry_Size (contracts example_bt OTM_Call)))
     = 8 \<and>
   avg_exit_size_ratio example_bt = Num (29/32)"
proof -
  from week_zero_size_event obtain bt where
    i: "init (week_data (Num (2/5)) 0) 0 week_days False 2 (1/10) 3 = Inr bt" and
    z: "map (\<lambda>l. (Entry_Size (contracts bt l), Exit_Size (contracts bt l))) legs
          = [(10, 12), (20, 25), (18, 22), (0, 5)]" by (elim exE conjE) (rule that)
  from z have s: "Entry_Size (contracts bt OTM_Put) = 10" "Entry_Size (contracts bt ATM_Put) = 20"
      "Entry_Size (contracts bt ATM_Call) = 18" "Entry_Size (contracts bt OTM_Call) = 0"
      "Exit_Size (contracts bt OTM_Put) = 12" "Exit_Size (contracts bt ATM_Put) = 25"
      "Exit_Size (contracts bt ATM_Call) = 22" "Exit_Size (contracts bt OTM_Call) = 5"
    by (simp_all add: legs_def)
  have nn: "\<forall>l. 0 \<le> Entry_Size (contracts bt l) \<and> 0 \<le> Exit_Size (contracts bt l)"
  proof
    fix l
    show "0 \<le> Entry_Size (contracts bt l) \<and> 0 \<le> Exit_Size (contracts bt l)"
      by (cases l) (simp_all add: s)
  qed
  have a: "avg_exit_size_ratio bt = NaN"
    using avg_exit_size_ratio_over_minimum[OF nn] by (simp add: s Let_def)
  have e: "Entry_Size (contracts example_bt OTM_Put) = 10"
          "Entry_Size (contracts example_bt ATM_Put) = 20"
          "Entry_Size (contracts example_bt ATM_Call) = 18"
          "Entry_Size (contracts example_bt OTM_Call) = 8"
          "Exit_Size (contracts example_bt OTM_Put) = 12"
          "Exit_Size (contracts example_bt ATM_Put) = 25"
          "Exit_Size (contracts example_bt ATM_Call) = 22"
          "Exit_Size (contracts example_bt OTM_Call) = 5"
    by (simp_all add: example_bt_def example_contracts_def)
  have b: "avg_exit_size_ratio example_bt = Num (29/32)"
    using avg_exit_size_ratio_over_minimum[OF example_sizes_nonneg] by (auto simp: e Let_def)
  have first: "\<exists>bt. init (week_data (Num (2/5)) 0) 0 week_days False 2 (1/10) 3 = Inr bt \<and>
         (\<forall>l. 0 \<le> Entry_Size (contracts bt l) \<and> 0 \<le> Exit_Size (contracts bt l)) \<and>
         Entry_Size (contracts bt OTM_Put) = 10 \<and>
         min (min (Entry_Size (contracts bt OTM_Put)) (Entry_Size (contracts bt ATM_Put)))
             (min (Entry_Size (contracts bt ATM_Call)) (Entry_Size (contracts bt OTM_Call))) = 0 \<and>
         avg_exit_size_ratio bt = NaN"
    using i nn a s by (intro exI[of _ bt]) simp
  from first example_init example_sizes_nonneg b e show ?thesis by simp
qed

text \<open>
  Claim C4. For every event whose entry sizes are not negative and every entry size
  ratio that is not negative (the ratio is a proportion of the available contracts),
  with \<open>n\<close> the floor of the minimum of the four entry sizes times the ratio: \<^verbatim>\<open>pnl\<close>
  returns 0 when \<open>n\<close> is 0, in particular when the ratio is 0, and otherwise 100 times
  the sum over the four legs of \<open>(exit price - entry price) * min n (exit size) +
  (expiration value - entry price) * max 0 (n - exit size)\<close>, the two wings with their
  sign and the two bodies negated.
\<close>

theorem pnl_of_floored_entry_count:
  assumes sizes: "\<forall>l. 0 \<le> Entry_Size (contracts bt l)"
      and ratio: "0 \<le> entry_size_ratio"
  shows "(let n = \<lfloor>real_of_int
                    (min (min (Entry_Size (contracts bt OTM_Put)) (Entry_Size (contracts bt ATM_Put)))
                         (min (Entry_Size (contracts bt ATM_Call))
                              (Entry_Size (contracts bt OTM_Call))))
                  * entry_size_ratio\<rfloor>
          in pnl bt entry_size_ratio =
               (if n = 0 then 0
                else 100 *
                  (((Exit_Price (contracts bt OTM_Put) - Entry_Price (contracts bt OTM_Put))
                      * real_of_int (min n (Exit_Size (contracts bt OTM_Put)))
                    + (Expiration_Value (contracts bt OTM_Put) - Entry_Price (contracts bt OTM_Put))
                      * real_of_int (max 0 (n - Exit_Size (contracts bt OTM_Put))))
                 - ((Exit_Price (contracts bt ATM_Put) - Entry_Price (contracts bt ATM_Put))
                      * real_of_int (min n (Exit_Size (contracts bt ATM_Put)))
                    + (Expiration_Value (contracts bt ATM_Put) - Entry_Price (contracts bt ATM_Put))
                      * real_of_int (max 0 (n - Exit_Size (contracts bt ATM_Put))))
                 - ((Exit_Price (contracts bt ATM_Call) - Entry_Price (contracts bt ATM_Call))
                      * real_of_int (min n (Exit_Size (contracts bt ATM_Call)))
                    + (Expiration_Value (contracts bt ATM_Call) - Entry_Price (contracts bt ATM_Call))
                      * real_of_int (max 0 (n - Exit_Size (contracts bt ATM_Call))))
                 + ((Exit_Price (contracts bt OTM_Call) - Entry_Price (contracts bt OTM_Call))
                      * real_of_int (min n (Exit_Size (contracts bt OTM_Call)))
                    + (Expiration_Value (contracts bt OTM_Call) - Entry_Price (contracts bt OTM_Call))
                      * real_of_int (max 0 (n - Exit_Size (contracts bt OTM_Call))))))) \<and>
         pnl bt 0 = 0"
proof -
  have m0: "0 \<le> min_entry_size bt"
    using sizes by (simp add: min_entry_size_four)
  then have "0 \<le> real_of_int (min_entry_size bt) * entry_size_ratio"
    using ratio by simp
  then have t: "py_int (real_of_int (min_entry_size bt) * entry_size_ratio)
                  = \<lfloor>real_of_int (min_entry_size bt) * entry_size_ratio\<rfloor>"
    by (rule py_int_nonneg)
  have z: "pnl bt 0 = 0" by (simp add: pnl_unfolded py_int_def)
  have "pnl bt entry_size_ratio =
          (if \<lfloor>real_of_int (min_entry_size bt) * entry_size_ratio\<rfloor> = 0 then 0
           else butterfly_value bt \<lfloor>real_of_int (min_entry_size bt) * entry_size_ratio\<rfloor>)"
    unfolding pnl_unfolded t ..
  then show ?thesis
    unfolding Let_def butterfly_value_legs min_entry_size_pairs using z by (rule conjI)
qed

theorem pnl_of_floored_entry_count_witness:
  "init example_data 1 example_days False 5 (1/10) 10 = Inr example_bt \<and>
   (\<forall>l. 0 \<le> Entry_Size (contracts example_bt l)) \<and>
   pnl example_bt 1 = - 225 \<and> pnl example_bt (1/10) = 0 \<and> pnl example_bt 0 = 0 \<and>
   (\<exists>bt. init (week_data (Num (2/5)) 8) 0 week_days False 2 (1/10) 3 = Inr bt \<and>
         (\<forall>l. 0 \<le> Entry_Size (contracts bt l)) \<and>
         pnl bt 1 = - 30915/4)"
proof -
  have e: "contracts example_bt OTM_Put = example_contracts OTM_Put"
          "contracts example_bt ATM_Put = example_contracts ATM_Put"
          "contracts example_bt ATM_Call = example_contracts ATM_Call"
          "contracts example_bt OTM_Call = example_contracts OTM_Call"
    by (simp_all add: example_bt_def)
  have f1: "\<lfloor>real_of_int 8 * 1\<rfloor> = (8 :: int)" by simp
  have f2: "\<lfloor>real_of_int 8 * (1/10)\<rfloor> = (0 :: int)" by (simp add: floor_eq_iff)
  have a: "pnl example_bt 1 = - 225"
    using pnl_of_floored_entry_count[OF example_entry_sizes_nonneg, of 1] f1
    by (simp add: Let_def e example_contracts_def)
  have b: "pnl example_bt (1/10) = 0"
    using pnl_of_floored_entry_count[OF example_entry_sizes_nonneg, of "1/10"] f2
    by (simp add: Let_def e example_contracts_def)
  have c: "pnl example_bt 0 = 0"
    using pnl_of_floored_entry_count[OF example_entry_sizes_nonneg, of 0] by simp
  from week_event obtain bt where
    i: "init (week_data (Num (2/5)) 8) 0 week_days False 2 (1/10) 3 = Inr bt" and
    m: "map (contracts bt) legs = week_contracts"
    by (elim exE conjE) (rule that)
  note w = week_legs[OF m]
  have nn: "\<forall>l. 0 \<le> Entry_Size (contracts bt l)"
  proof
    fix l
    show "0 \<le> Entry_Size (contracts bt l)"
      by (cases l) (simp_all add: w week_contracts_def)
  qed
  have d: "pnl bt 1 = - 30915/4"
    using pnl_of_floored_entry_count[OF nn, of 1] f1
    by (simp add: Let_def w week_contracts_def)
  have "\<exists>bt. init (week_data (Num (2/5)) 8) 0 week_days False 2 (1/10) 3 = Inr bt \<and>
         (\<forall>l. 0 \<le> Entry_Size (contracts bt l)) \<and>
         pnl bt 1 = - 30915/4"
    using i nn d by blast
  with example_init example_entry_sizes_nonneg a b c show ?thesis by simp
qed

text \<open>
  Claim C5. For every leg of every successfully constructed event there are an entry row
  and an exit row of the option data: the entry row is the row of the leg's kind on the
  anchor date whose moneyness is closest to the leg's target, the exit row is a row of the
  same kind and strike on the exit date. A wing (OTM) leg has as entry price \<open>(mid + ask) / 2\<close>
  of its entry row, as exit price the larger of the intrinsic value of its exit row
  (\<open>max 0 (strike - underlying)\<close> for the put, \<open>max 0 (underlying - strike)\<close> for the
  call) and \<open>(bid + mid) / 2\<close> of its exit row, as entry size the ask size at entry and as
  exit size the bid size at exit. A body (ATM) leg has as entry price the larger of the
  intrinsic value of its entry row and \<open>(bid + mid) / 2\<close> of its entry row, as exit price
  \<open>(mid + ask) / 2\<close> of its exit row, as entry size the bid size at entry and as exit size
  the ask size at exit.
\<close>

theorem leg_prices_and_sizes:
  assumes "init option_data earnings_date trading_days before_market_open holding_period ww
             min_days_expiry = Inr bt"
  shows "\<exists>entry x.
           entry_row (df bt) (edate bt) (flag_of l) (strike_prop_map ww l) = Inr entry \<and>
           exit_row (df bt) (exit_date bt) (flag_of l) entry = Inr x \<and>
           entry \<in> set (df bt) \<and> DataDate entry = edate bt \<and>
           x \<in> set (df bt) \<and> DataDate x = exit_date bt \<and> PutCall x = PutCall entry \<and>
           StrikePrice x = StrikePrice entry \<and>
           (l = OTM_Put \<longrightarrow>
              PutCall entry = Put \<and>
              (\<forall>r \<in> set (df bt). DataDate r = edate bt \<and> PutCall r = Put \<longrightarrow>
                  \<bar>StrikeProp entry - (1 - ww)\<bar> \<le> \<bar>StrikeProp r - (1 - ww)\<bar>) \<and>
              Entry_Price (contracts bt l) = (MidPrice entry + AskPrice entry) / 2 \<and>
              Exit_Price (contracts bt l)
                = max (max 0 (StrikePrice x - UnderlyingPrice x)) ((BidPrice x + MidPrice x) / 2) \<and>
              Entry_Size (contracts bt l) = AskSize entry \<and>
              Exit_Size (contracts bt l) = BidSize x) \<and>
           (l = OTM_Call \<longrightarrow>
              PutCall entry = Call \<and>
              (\<forall>r \<in> set (df bt). DataDate r = edate bt \<and> PutCall r = Call \<longrightarrow>
                  \<bar>StrikeProp entry - (1 + ww)\<bar> \<le> \<bar>StrikeProp r - (1 + ww)\<bar>) \<and>
              Entry_Price (contracts bt l) = (MidPrice entry + AskPrice entry) / 2 \<and>
              Exit_Price (contracts bt l)
                = max (max 0 (UnderlyingPrice x - StrikePrice x)) ((BidPrice x + MidPrice x) / 2) \<and>
              Entry_Size (contracts bt l) = AskSize entry \<and>
              Exit_Size (contracts bt l) = BidSize x) \<and>
           (l = ATM_Put \<longrightarrow>
              PutCall entry = Put \<and>
              (\<forall>r \<in> set (df bt). DataDate r = edate bt \<and> PutCall r = Put \<longrightarrow>
                  \<bar>StrikeProp entry - 1\<bar> \<le> \<bar>StrikeProp r - 1\<bar>) \<and>
              Entry_Price (contracts bt l)
                = max (max 0 (StrikePrice entry - UnderlyingPrice entry))
                      ((BidPrice entry + MidPrice entry) / 2) \<and>
              Exit_Price (contracts bt l) = (MidPrice x + AskPrice x) / 2 \<and>
              Entry_Size (contracts bt l) = BidSize entry \<and>
              Exit_Size (contracts bt l) = AskSize x) \<and>
           (l = ATM_Call \<longrightarrow>
              PutCall entry = Call \<and>
              (\<forall>r \<in> set (df bt). DataDate r = edate bt \<and> PutCall r = Call \<longrightarrow>
                  \<bar>StrikeProp entry - 1\<bar> \<le> \<bar>StrikeProp r - 1\<bar>) \<and>
              Entry_Price (contracts bt l)
                = max (max 0 (UnderlyingPrice entry - StrikePrice entry))
                      ((BidPrice entry + MidPrice entry) / 2) \<and>
              Exit_Price (contracts bt l) = (MidPrice x + AskPrice x) / 2 \<and>
              Entry_Size (contracts bt l) = BidSize entry \<and>
              Exit_Size (contracts bt l) = AskSize x)"
proof -
  from init_fields(7)[OF assms]
  have "get_single_contract_info (df bt) (edate bt) (exit_date bt) (final_price bt) l
          (strike_prop_map ww l) = Inr (contracts bt l)"
    by (rule all_contract_info_leg)
  from single_contract_fields[OF this] obtain entry x where
    e: "entry_row (df bt) (edate bt) (flag_of l) (strike_prop_map ww l) = Inr entry" and
    x: "exit_row (df bt) (exit_date bt) (flag_of l) entry = Inr x" and
    f: "Entry_Price (contracts bt l) = (if wing l then three_quarter entry
                            else max (intrinsic_value entry (flag_of l)) (quarter entry))"
       "Exit_Price (contracts bt l) = (if wing l then max (intrinsic_value x (flag_of l)) (quarter x)
                           else three_quarter x)"
       "Entry_Size (contracts bt l) = (if wing l then AskSize entry else BidSize entry)"
       "Exit_Size (contracts bt l) = (if wing l then BidSize x else AskSize x)"
    by (elim exE conjE) (rule that)
  note ef = entry_row_facts[OF e] and xf = exit_row_facts[OF x] and cl = entry_row_closest[OF e]
  have rows: "entry \<in> set (df bt) \<and> DataDate entry = edate bt \<and>
           x \<in> set (df bt) \<and> DataDate x = exit_date bt \<and> PutCall x = PutCall entry \<and>
           StrikePrice x = StrikePrice entry"
    using ef xf by simp
  have p1: "l = OTM_Put \<longrightarrow>
              PutCall entry = Put \<and>
              (\<forall>r \<in> set (df bt). DataDate r = edate bt \<and> PutCall r = Put \<longrightarrow>
                  \<bar>StrikeProp entry - (1 - ww)\<bar> \<le> \<bar>StrikeProp r - (1 - ww)\<bar>) \<and>
              Entry_Price (contracts bt l) = (MidPrice entry + AskPrice entry) / 2 \<and>
              Exit_Price (contracts bt l)
                = max (max 0 (StrikePrice x - UnderlyingPrice x)) ((BidPrice x + MidPrice x) / 2) \<and>
              Entry_Size (contracts bt l) = AskSize entry \<and>
              Exit_Size (contracts bt l) = BidSize x"
  proof
    assume l: "l = OTM_Put"
    from cl have "\<forall>r \<in> set (df bt). DataDate r = edate bt \<and> PutCall r = Put \<longrightarrow>
                  \<bar>StrikeProp entry - (1 - ww)\<bar> \<le> \<bar>StrikeProp r - (1 - ww)\<bar>"
      unfolding l by (simp add: strike_prop_map_def)
    moreover from ef have "PutCall entry = Put" unfolding l by simp
    ultimately show "PutCall entry = Put \<and>
              (\<forall>r \<in> set (df bt). DataDate r = edate bt \<and> PutCall r = Put \<longrightarrow>
                  \<bar>StrikeProp entry - (1 - ww)\<bar> \<le> \<bar>StrikeProp r - (1 - ww)\<bar>) \<and>
              Entry_Price (contracts bt l) = (MidPrice entry + AskPrice entry) / 2 \<and>
              Exit_Price (contracts bt l)
                = max (max 0 (StrikePrice x - UnderlyingPrice x)) ((BidPrice x + MidPrice x) / 2) \<and>
              Entry_Size (contracts bt l) = AskSize entry \<and>
              Exit_Size (contracts bt l) = BidSize x"
      using f unfolding l
      by (simp add: wing_cases quarter_def three_quarter_def intrinsic_value_def)
  qed
  have p2: "l = OTM_Call \<longrightarrow>
              PutCall entry = Call \<and>
              (\<forall>r \<in> set (df bt). DataDate r = edate bt \<and> PutCall r = Call \<longrightarrow>
                  \<bar>StrikeProp entry - (1 + ww)\<bar> \<le> \<bar>StrikeProp r - (1 + ww)\<bar>) \<and>
              Entry_Price (contracts bt l) = (MidPrice entry + AskPrice entry) / 2 \<and>
              Exit_Price (contracts bt l)
                = max (max 0 (UnderlyingPrice x - StrikePrice x)) ((BidPrice x + MidPrice x) / 2) \<and>
              Entry_Size (contracts bt l) = AskSize entry \<and>
              Exit_Size (contracts bt l) = BidSize x"
  proof
    assume l: "l = OTM_Call"
    from cl have "\<forall>r \<in> set (df bt). DataDate r = edate bt \<and> PutCall r = Call \<longrightarrow>
                  \<bar>StrikeProp entry - (1 + ww)\<bar> \<le> \<bar>StrikeProp r - (1 + ww)\<bar>"
      unfolding l by (simp add: strike_prop_map_def)
    moreover from ef have "PutCall entry = Call" unfolding l by simp
    ultimately show "PutCall entry = Call \<and>
              (\<forall>r \<in> set (df bt). DataDate r = edate bt \<and> PutCall r = Call \<longrightarrow>
                  \<bar>StrikeProp entry - (1 + ww)\<bar> \<le> \<bar>StrikeProp r - (1 + ww)\<bar>) \<and>
              Entry_Price (contracts bt l) = (MidPrice entry + AskPrice entry) / 2 \<and>
              Exit_Price (contracts bt l)
                = max (max 0 (UnderlyingPrice x - StrikePrice x)) ((BidPrice x + MidPrice x) / 2) \<and>
              Entry_Size (contracts bt l) = AskSize entry \<and>
              Exit_Size (contracts bt l) = BidSize x"
      using f unfolding l
      by (simp add: wing_cases quarter_def three_quarter_def intrinsic_value_def)
  qed
  have p3: "l = ATM_Put \<longrightarrow>
              PutCall entry = Put \<and>
              (\<forall>r \<in> set (df bt). DataDate r = edate bt \<and> PutCall r = Put \<longrightarrow>
                  \<bar>StrikeProp entry - 1\<bar> \<le> \<bar>StrikeProp r - 1\<bar>) \<and>
              Entry_Price (contracts bt l)
                = max (max 0 (StrikePrice entry - UnderlyingPrice entry))
                      ((BidPrice entry + MidPrice entry) / 2) \<and>
              Exit_Price (contracts bt l) = (MidPrice x + AskPrice x) / 2 \<and>
              Entry_Size (contracts bt l) = BidSize entry \<and>
              Exit_Size (contracts bt l) = AskSize x"
  proof
    assume l: "l = ATM_Put"
    from cl have "\<forall>r \<in> set (df bt). DataDate r = edate bt \<and> PutCall r = Put \<longrightarrow>
                  \<bar>StrikeProp entry - 1\<bar> \<le> \<bar>StrikeProp r - 1\<bar>"
      unfolding l by (simp add: strike_prop_map_def)
    moreover from ef have "PutCall entry = Put" unfolding l by simp
    ultimately show "PutCall entry = Put \<and>
              (\<forall>r \<in> set (df bt). DataDate r = edate bt \<and> PutCall r = Put \<longrightarrow>
                  \<bar>StrikeProp entry - 1\<bar> \<le> \<bar>StrikeProp r - 1\<bar>) \<and>
              Entry_Price (contracts bt l)
                = max (max 0 (StrikePrice entry - UnderlyingPrice entry))
                      ((BidPrice entry + MidPrice entry) / 2) \<and>
              Exit_Price (contracts bt l) = (MidPrice x + AskPrice x) / 2 \<and>
              Entry_Size (contracts bt l) = BidSize entry \<and>
              Exit_Size (contracts bt l) = AskSize x"
      using f unfolding l
      by (simp add: wing_cases quarter_def three_quarter_def intrinsic_value_def)
  qed
  have p4: "l = ATM_Call \<longrightarrow>
              PutCall entry = Call \<and>
              (\<forall>r \<in> set (df bt). DataDate r = edate bt \<and> PutCall r = Call \<longrightarrow>
                  \<bar>StrikeProp entry - 1\<bar> \<le> \<bar>StrikeProp r - 1\<bar>) \<and>
              Entry_Price (contracts bt l)
                = max (max 0 (UnderlyingPrice entry - StrikePrice entry))
                      ((BidPrice entry + MidPrice entry) / 2) \<and>
              Exit_Price (contracts bt l) = (MidPrice x + AskPrice x) / 2 \<and>
              Entry_Size (contracts bt l) = BidSize entry \<and>
              Exit_Size (contracts bt l) = AskSize x"
  proof
    assume l: "l = ATM_Call"
    from cl have "\<forall>r \<in> set (df bt). DataDate r = edate bt \<and> PutCall r = Call \<longrightarrow>
                  \<bar>StrikeProp entry - 1\<bar> \<le> \<bar>StrikeProp r - 1\<bar>"
      unfolding l by (simp add: strike_prop_map_def)
    moreover from ef have "PutCall entry = Call" unfolding l by simp
    ultimately show "PutCall entry = Call \<and>
              (\<forall>r \<in> set (df bt). DataDate r = edate bt \<and> PutCall r = Call \<longrightarrow>
                  \<bar>StrikeProp entry - 1\<bar> \<le> \<bar>StrikeProp r - 1\<bar>) \<and>
              Entry_Price (contracts bt l)
                = max (max 0 (UnderlyingPrice entry - StrikePrice entry))
                      ((BidPrice entry + MidPrice entry) / 2) \<and>
              Exit_Price (contracts bt l) = (MidPrice x + AskPrice x) / 2 \<and>
              Entry_Size (contracts bt l) = BidSize entry \<and>
              Exit_Size (contracts bt l) = AskSize x"
      using f unfolding l
      by (simp add: wing_cases quarter_def three_quarter_def intrinsic_value_def)
  qed
  from e x rows p1 p2 p3 p4 show ?thesis
    by (intro exI[of _ entry] exI[of _ x] conjI) (elim conjE; assumption)+
qed

theorem leg_prices_and_sizes_witness:
  "\<exists>bt. init (week_data (Num (2/5)) 8) 0 week_days False 2 (1/10) 3 = Inr bt \<and>
     edate bt = 0 \<and> exit_date bt = 2 \<and> df bt = week_data (Num (2/5)) 8 \<and>
     entry_row (df bt) (edate bt) Put (1 - 1/10)
       = Inr (quote 4 0 Put 90 100 1 (6/5) 12 10 (Num (2/5)) (- 1/5)) \<and>
     exit_row (df bt) (exit_date bt) Put (quote 4 0 Put 90 100 1 (6/5) 12 10 (Num (2/5)) (- 1/5))
       = Inr (quote 4 2 Put 90 80 9 (46/5) 12 10 (Num (1/2)) (- 9/10)) \<and>
     Entry_Price (contracts bt OTM_Put) = 23/20 \<and> Exit_Price (contracts bt OTM_Put) = 10 \<and>
     Entry_Size (contracts bt OTM_Put) = 10 \<and> Exit_Size (contracts bt OTM_Put) = 12 \<and>
     entry_row (df bt) (edate bt) Put 1
       = Inr (quote 4 0 Put 102 100 (3/2) (19/10) 20 25 (Num (3/10)) (- 11/20)) \<and>
     exit_row (df bt) (exit_date bt) Put (quote 4 0 Put 102 100 (3/2) (19/10) 20 25 (Num (3/10)) (- 11/20))
       = Inr (quote 4 2 Put 102 80 22 23 20 25 (Num (1/2)) (- 19/20)) \<and>
     Entry_Price (contracts bt ATM_Put) = 2 \<and> Exit_Price (contracts bt ATM_Put) = 91/4 \<and>
     Entry_Size (contracts bt ATM_Put) = 20 \<and> Exit_Size (contracts bt ATM_Put) = 25 \<and>
     entry_row (df bt) (edate bt) Call 1
       = Inr (quote 4 0 Call 98 100 3 (17/5) 18 22 (Num (3/10)) (11/20)) \<and>
     exit_row (df bt) (exit_date bt) Call (quote 4 0 Call 98 100 3 (17/5) 18 22 (Num (3/10)) (11/20))
       = Inr (quote 4 2 Call 98 80 (1/10) (3/10) 18 22 (Num (1/2)) (1/20)) \<and>
     Entry_Price (contracts bt ATM_Call) = 31/10 \<and> Exit_Price (contracts bt ATM_Call) = 1/4 \<and>
     Entry_Size (contracts bt ATM_Call) = 18 \<and> Exit_Size (contracts bt ATM_Call) = 22 \<and>
     entry_row (df bt) (edate bt) Call (1 + 1/10)
       = Inr (quote 4 0 Call 110 100 (1/2) (7/10) 5 8 (Num (7/20)) (1/5)) \<and>
     exit_row (df bt) (exit_date bt) Call (quote 4 0 Call 110 100 (1/2) (7/10) 5 8 (Num (7/20)) (1/5))
       = Inr (quote 4 2 Call 110 80 (1/20) (1/10) 5 8 (Num (11/20)) (1/50)) \<and>
     Entry_Price (contracts bt OTM_Call) = 13/20 \<and> Exit_Price (contracts bt OTM_Call) = 1/16 \<and>
     Entry_Size (contracts bt OTM_Call) = 8 \<and> Exit_Size (contracts bt OTM_Call) = 5"
proof -
  from week_event obtain bt where
    i: "init (week_data (Num (2/5)) 8) 0 week_days False 2 (1/10) 3 = Inr bt" and
    ed: "edate bt = 0" and xd: "exit_date bt = 2" and d: "df bt = week_data (Num (2/5)) 8"
    by (elim exE conjE) (rule that)
  from leg_prices_and_sizes[OF i, of OTM_Put] obtain e1 x1 where
    a1: "entry_row (df bt) (edate bt) (flag_of OTM_Put) (strike_prop_map (1/10) OTM_Put) = Inr e1" and
    b1: "exit_row (df bt) (exit_date bt) (flag_of OTM_Put) e1 = Inr x1" and
    c1: "OTM_Put = OTM_Put \<longrightarrow>
              PutCall e1 = Put \<and>
              (\<forall>r \<in> set (df bt). DataDate r = edate bt \<and> PutCall r = Put \<longrightarrow>
                  \<bar>StrikeProp e1 - (1 - 1/10)\<bar> \<le> \<bar>StrikeProp r - (1 - 1/10)\<bar>) \<and>
              Entry_Price (contracts bt OTM_Put) = (MidPrice e1 + AskPrice e1) / 2 \<and>
              Exit_Price (contracts bt OTM_Put)
                = max (max 0 (StrikePrice x1 - UnderlyingPrice x1)) ((BidPrice x1 + MidPrice x1) / 2) \<and>
              Entry_Size (contracts bt OTM_Put) = AskSize e1 \<and>
              Exit_Size (contracts bt OTM_Put) = BidSize x1"
    by (elim exE conjE) (rule that)
  from a1 have e1: "e1 = quote 4 0 Put 90 100 1 (6/5) 12 10 (Num (2/5)) (- 1/5)"
    unfolding ed d week_rows by simp
  from b1 have x1: "x1 = quote 4 2 Put 90 80 9 (46/5) 12 10 (Num (1/2)) (- 9/10)"
    unfolding xd d e1 week_rows by simp
  from c1 have v1: "Entry_Price (contracts bt OTM_Put) = 23/20 \<and> Exit_Price (contracts bt OTM_Put) = 10 \<and>
     Entry_Size (contracts bt OTM_Put) = 10 \<and> Exit_Size (contracts bt OTM_Put) = 12"
    unfolding e1 x1 by (simp add: quote_def)
  have r1: "entry_row (df bt) (edate bt) Put (1 - 1/10)
       = Inr (quote 4 0 Put 90 100 1 (6/5) 12 10 (Num (2/5)) (- 1/5)) \<and>
     exit_row (df bt) (exit_date bt) Put (quote 4 0 Put 90 100 1 (6/5) 12 10 (Num (2/5)) (- 1/5))
       = Inr (quote 4 2 Put 90 80 9 (46/5) 12 10 (Num (1/2)) (- 9/10))"
    using a1 b1 unfolding e1 x1 by (simp add: strike_prop_map_def)
  from leg_prices_and_sizes[OF i, of ATM_Put] obtain e2 x2 where
    a2: "entry_row (df bt) (edate bt) (flag_of ATM_Put) (strike_prop_map (1/10) ATM_Put) = Inr e2" and
    b2: "exit_row (df bt) (exit_date bt) (flag_of ATM_Put) e2 = Inr x2" and
    c2: "ATM_Put = ATM_Put \<longrightarrow>
              PutCall e2 = Put \<and>
              (\<forall>r \<in> set (df bt). DataDate r = edate bt \<and> PutCall r = Put \<longrightarrow>
                  \<bar>StrikeProp e2 - 1\<bar> \<le> \<bar>StrikeProp r - 1\<bar>) \<and>
              Entry_Price (contracts bt ATM_Put)
                = max (max 0 (StrikePrice e2 - UnderlyingPrice e2))
                      ((BidPrice e2 + MidPrice e2) / 2) \<and>
              Exit_Price (contracts bt ATM_Put) = (MidPrice x2 + AskPrice x2) / 2 \<and>
              Entry_Size (contracts bt ATM_Put) = BidSize e2 \<and>
              Exit_Size (contracts bt ATM_Put) = AskSize x2"
    by (elim exE conjE) (rule that)
  from a2 have e2: "e2 = quote 4 0 Put 102 100 (3/2) (19/10) 20 25 (Num (3/10)) (- 11/20)"
    unfolding ed d week_rows by simp
  from b2 have x2: "x2 = quote 4 2 Put 102 80 22 23 20 25 (Num (1/2)) (- 19/20)"
    unfolding xd d e2 week_rows by simp
  from c2 have v2: "Entry_Price (contracts bt ATM_Put) = 2 \<and> Exit_Price (contracts bt ATM_Put) = 91/4 \<and>
     Entry_Size (contracts bt ATM_Put) = 20 \<and> Exit_Size (contracts bt ATM_Put) = 25"
    unfolding e2 x2 by (simp add: quote_def)
  have r2: "entry_row (df bt) (edate bt) Put 1
       = Inr (quote 4 0 Put 102 100 (3/2) (19/10) 20 25 (Num (3/10)) (- 11/20)) \<and>
     exit_row (df bt) (exit_date bt) Put (quote 4 0 Put 102 100 (3/2) (19/10) 20 25 (Num (3/10)) (- 11/20))
       = Inr (quote 4 2 Put 102 80 22 23 20 25 (Num (1/2)) (- 19/20))"
    using a2 b2 unfolding e2 x2 by (simp add: strike_prop_map_def)
  from leg_prices_and_sizes[OF i, of ATM_Call] obtain e3 x3 where
    a3: "entry_row (df bt) (edate bt) (flag_of ATM_Call) (strike_prop_map (1/10) ATM_Call) = Inr e3" and
    b3: "exit_row (df bt) (exit_date bt) (flag_of ATM_Call) e3 = Inr x3" and
    c3: "ATM_Call = ATM_Call \<longrightarrow>
              PutCall e3 = Call \<and>
              (\<forall>r \<in> set (df bt). DataDate r = edate bt \<and> PutCall r = Call \<longrightarrow>
                  \<bar>StrikeProp e3 - 1\<bar> \<le> \<bar>StrikeProp r - 1\<bar>) \<and>
              Entry_Price (contracts bt ATM_Call)
                = max (max 0 (UnderlyingPrice e3 - StrikePrice e3))
                      ((BidPrice e3 + MidPrice e3) / 2) \<and>
              Exit_Price (contracts bt ATM_Call) = (MidPrice x3 + AskPrice x3) / 2 \<and>
              Entry_Size (contracts bt ATM_Call) = BidSize e3 \<and>
              Exit_Size (contracts bt ATM_Call) = AskSize x3"
    by (elim exE conjE) (rule that)
  from a3 have e3: "e3 = quote 4 0 Call 98 100 3 (17/5) 18 22 (Num (3/10)) (11/20)"
    unfolding ed d week_rows by simp
  from b3 have x3: "x3 = quote 4 2 Call 98 80 (1/10) (3/10) 18 22 (Num (1/2)) (1/20)"
    unfolding xd d e3 week_rows by simp
  from c3 have v3: "Entry_Price (contracts bt ATM_Call) = 31/10 \<and> Exit_Price (contracts bt ATM_Call) = 1/4 \<and>
     Entry_Size (contracts bt ATM_Call) = 18 \<and> Exit_Size (contracts bt ATM_Call) = 22"
    unfolding e3 x3 by (simp add: quote_def)
  have r3: "entry_row (df bt) (edate bt) Call 1
       = Inr (quote 4 0 Call 98 100 3 (17/5) 18 22 (Num (3/10)) (11/20)) \<and>
     exit_row (df bt) (exit_date bt) Call (quote 4 0 Call 98 100 3 (17/5) 18 22 (Num (3/10)) (11/20))
       = Inr (quote 4 2 Call 98 80 (1/10) (3/10) 18 22 (Num (1/2)) (1/20))"
    using a3 b3 unfolding e3 x3 by (simp add: strike_prop_map_def)
  from leg_prices_and_sizes[OF i, of OTM_Call] obtain e4 x4 where
    a4: "entry_row (df bt) (edate bt) (flag_of OTM_Call) (strike_prop_map (1/10) OTM_Call) = Inr e4" and
    b4: "exit_row (df bt) (exit_date bt) (flag_of OTM_Call) e4 = Inr x4" and
    c4: "OTM_Call = OTM_Call \<longrightarrow>
              PutCall e4 = Call \<and>
              (\<forall>r \<in> set (df bt). DataDate r = edate bt \<and> PutCall r = Call \<longrightarrow>
                  \<bar>StrikeProp e4 - (1 + 1/10)\<bar> \<le> \<bar>StrikeProp r - (1 + 1/10)\<bar>) \<and>
              Entry_Price (contracts bt OTM_Call) = (MidPrice e4 + AskPrice e4) / 2 \<and>
              Exit_Price (contracts bt OTM_Call)
                = max (max 0 (UnderlyingPrice x4 - StrikePrice x4)) ((BidPrice x4 + MidPrice x4) / 2) \<and>
              Entry_Size (contracts bt OTM_Call) = AskSize e4 \<and>
              Exit_Size (contracts bt OTM_Call) = BidSize x4"
    by (elim exE conjE) (rule that)
  from a4 have e4: "e4 = quote 4 0 Call 110 100 (1/2) (7/10) 5 8 (Num (7/20)) (1/5)"
    unfolding ed d week_rows by simp
  from b4 have x4: "x4 = quote 4 2 Call 110 80 (1/20) (1/10) 5 8 (Num (11/20)) (1/50)"
    unfolding xd d e4 week_rows by simp
  from c4 have v4: "Entry_Price (contracts bt OTM_Call) = 13/20 \<and> Exit_Price (contracts bt OTM_Call) = 1/16 \<and>
     Entry_Size (contracts bt OTM_Call) = 8 \<and> Exit_Size (contracts bt OTM_Call) = 5"
    unfolding e4 x4 by (simp add: quote_def)
  have r4: "entry_row (df bt) (edate bt) Call (1 + 1/10)
       = Inr (quote 4 0 Call 110 100 (1/2) (7/10) 5 8 (Num (7/20)) (1/5)) \<and>
     exit_row (df bt) (exit_date bt) Call (quote 4 0 Call 110 100 (1/2) (7/10) 5 8 (Num (7/20)) (1/5))
       = Inr (quote 4 2 Call 110 80 (1/20) (1/10) 5 8 (Num (11/20)) (1/50))"
    using a4 b4 unfolding e4 x4 by (simp add: strike_prop_map_def)
  from i ed xd d r1 v1 r2 v2 r3 v3 r4 v4 show ?thesis
    by (intro exI[of _ bt] conjI) (elim conjE; assumption)+
qed

text \<open>
  Claim C9, as amended. For every constructed event and every curvature method that
  succeeds on the anchor-day slice with a curvature that is a number (not
  not-a-number), \<^verbatim>\<open>curve_changes\<close> with \<open>days_before = 0\<close> and \<open>days_after = 0\<close> returns
  change-before 0 and change-after 0: each of the three slices is the anchor-day slice.
\<close>

theorem curve_changes_zero_days_of_number:
  assumes "init option_data earnings_date trading_days before_market_open holding_period ww
             min_days_expiry = Inr bt"
      and "curve_method quad_fit method = Inr calc"
      and "calc (filter (\<lambda>r. DataDate r = edate bt) (filter liquid (df bt))) = Inr (Num c)"
  shows "curve_changes quad_fit bt method 0 0 = Inr (Num 0, Num 0)"
  using init_anchor[OF assms(1)] assms(2,3)
  by (simp add: curve_changes_def curve_changes_with_def and_then_def Let_def
        minus_py_float_def)

theorem curve_changes_zero_days_of_number_witness:
  "init example_data 1 example_days False 5 (1/10) 10 = Inr example_bt \<and>
   curve_method (\<lambda>pts. None) ''discrete'' = Inr curve_calc_disc \<and>
   curve_calc_disc (filter (\<lambda>r. DataDate r = edate example_bt) (filter liquid (df example_bt)))
     = Inr (Num (23/20)) \<and>
   curve_changes (\<lambda>pts. None) example_bt ''discrete'' 0 0 = Inr (Num 0, Num 0)"
proof -
  have s: "curve_calc_disc (filter (\<lambda>r. DataDate r = edate example_bt)
             (filter liquid (df example_bt))) = Inr (Num (23/20))"
    using example_anchor_curve by (simp add: example_bt_def)
  from curve_changes_zero_days_of_number[OF example_init example_method s]
    example_init example_method s
  show ?thesis by simp
qed

text \<open>
  Claim C9 as stated (for every method that succeeds on the anchor-day slice) fails when
  the curvature of that slice is not-a-number. On the week whose 90 put has no implied
  volatility on day 0 the discrete method raises nothing on the slice of day 0 and
  returns not-a-number, and each of the two changes is not-a-number minus not-a-number:
  not-a-number, not 0.
\<close>

theorem curve_changes_zero_days_nan:
  "init (week_data NaN 8) 0 week_days False 2 (1/10) 3 = Inr nan_week_bt \<and>
   curve_method (\<lambda>pts. None) ''discrete'' = Inr curve_calc_disc \<and>
   curve_calc_disc (filter (\<lambda>r. DataDate r = edate nan_week_bt) (filter liquid (df nan_week_bt)))
     = Inr NaN \<and>
   curve_changes (\<lambda>pts. None) nan_week_bt ''discrete'' 0 0 = Inr (NaN, NaN) \<and>
   curve_changes (\<lambda>pts. None) nan_week_bt ''discrete'' 0 0 \<noteq> Inr (0, 0)"
proof -
  have s: "curve_calc_disc (filter (\<lambda>r. DataDate r = edate nan_week_bt)
             (filter liquid (df nan_week_bt))) = Inr NaN"
    using nan_week_anchor_curve by (simp add: nan_week_bt_def)
  have c: "curve_changes (\<lambda>pts. None) nan_week_bt ''discrete'' 0 0 = Inr (NaN, NaN)"
    using nan_week_curve_changes by (simp add: curve_changes_def example_method and_then_def)
  have n: "curve_changes (\<lambda>pts. None) nan_week_bt ''discrete'' 0 0 \<noteq> Inr (0, 0)"
    unfolding c by (simp add: zero_py_float_def)
  from nan_week_init example_method s c n show ?thesis by simp
qed

text \<open>
  Claim C3 asks that the at-the-money volatility average the put whose delta is closest
  to \<open>-1/2\<close> and the call whose delta is closest to \<open>1/2\<close>. The code takes both rows
  from the whole slice, puts and calls together, although its docstring speaks of the
  average of the put and the call at 100% moneyness, its variables are \<^verbatim>\<open>atm_put\<close> and
  \<^verbatim>\<open>atm_call\<close>, and the two out-of-the-money rows are taken from the puts and from the
  calls. On a liquid slice whose first row is a call with delta 0 and whose second row is
  a put with delta \<open>-1\<close> both rows are at distance \<open>1/2\<close> from \<open>-1/2\<close>: the code takes
  the first, the call, as its at-the-money put and returns \<open>4/3\<close>, where the put closest
  to \<open>-1/2\<close> gives the curvature 1 that the claim states.
\<close>

theorem curve_calc_disc_atm_put_is_call:
  "list_all liquid deep_slice \<and>
   filter (\<lambda>r. PutCall r = Put) deep_slice \<noteq> [] \<and>
   filter (\<lambda>r. PutCall r = Call) deep_slice \<noteq> [] \<and>
   map_sum id PutCall (iloc_argmin (\<lambda>r. \<bar>Delta r + 1/2\<bar>) deep_slice) = Inr Call \<and>
   map_sum id PutCall (iloc_argmin (\<lambda>r. \<bar>Delta r + 1/2\<bar>)
                         (filter (\<lambda>r. PutCall r = Put) deep_slice)) = Inr Put \<and>
   curve_calc_disc deep_slice = Inr (Num (4/3)) \<and>
   curve_calc_disc_claimed deep_slice = Inr (Num 1)"
proof -
  have a: "filter (\<lambda>r. PutCall r = Put) deep_slice \<noteq> [] \<and>
        filter (\<lambda>r. PutCall r = Call) deep_slice \<noteq> []"
    by (simp add: deep_slice_def quote_def)
  have b: "map_sum id PutCall (iloc_argmin (\<lambda>r. \<bar>Delta r + 1/2\<bar>) deep_slice) = Inr Call"
    by code_simp
  have c: "map_sum id PutCall (iloc_argmin (\<lambda>r. \<bar>Delta r + 1/2\<bar>)
                         (filter (\<lambda>r. PutCall r = Put) deep_slice)) = Inr Put"
    by code_simp
  from a b c deep_slice_values show ?thesis by simp
qed

text \<open>
  Claim C6. In the loops of the batch runner: when the constructor raises the data-range
  error the whole earnings event is skipped (no cell of its row is written) and the loop
  continues with the remaining dates; when a metric raises it, only that cell is skipped
  and the remaining metrics still run; any other exception, of the constructor or of a
  metric, ends the batch with that exception. The first conjunct describes every cell of
  the table after a run in which only data-range errors occur; the next two are the two
  skips; the last two are the propagation of the first other exception.
\<close>

theorem batch_runner_error_policy:
  "(distinct evs \<and>
    (\<forall>ev \<in> set evs. \<forall>e. new_bt ev = Inl e \<longrightarrow> e = DataRange) \<and>
    (\<forall>ev \<in> set evs. \<forall>bt. new_bt ev = Inr bt \<longrightarrow>
        (\<forall>m \<in> set funcs. \<forall>e. m bt = Inl e \<longrightarrow> e = DataRange)) \<longrightarrow>
    (\<exists>out'. backtest_loop new_bt funcs evs out = Inr out' \<and>
        (\<forall>ev i. out' ev i =
           (if ev \<in> set evs \<and> i < length funcs
            then (case new_bt ev of
                    Inl e \<Rightarrow> out ev i
                  | Inr bt \<Rightarrow> (case (funcs ! i) bt of Inl e \<Rightarrow> out ev i | Inr v \<Rightarrow> Some v))
            else out ev i)))) \<and>
   (new_bt ev = Inl DataRange \<longrightarrow>
      backtest_loop new_bt funcs (ev # rest) out = backtest_loop new_bt funcs rest out) \<and>
   (m bt = Inl DataRange \<longrightarrow>
      run_funcs bt (m # ms) i row = run_funcs bt ms (Suc i) row) \<and>
   ((\<forall>ev \<in> set pre. \<forall>e. new_bt ev = Inl e \<longrightarrow> e = DataRange) \<and>
    (\<forall>ev \<in> set pre. \<forall>bt. new_bt ev = Inr bt \<longrightarrow>
        (\<forall>m \<in> set funcs. \<forall>e. m bt = Inl e \<longrightarrow> e = DataRange)) \<and>
    new_bt ev = Inl err \<and> err \<noteq> DataRange \<longrightarrow>
      backtest_loop new_bt funcs (pre @ ev # post) out = Inl err) \<and>
   ((\<forall>ev \<in> set pre. \<forall>e. new_bt ev = Inl e \<longrightarrow> e = DataRange) \<and>
    (\<forall>ev \<in> set pre. \<forall>bt. new_bt ev = Inr bt \<longrightarrow>
        (\<forall>m \<in> set (fpre @ m # fpost). \<forall>e. m bt = Inl e \<longrightarrow> e = DataRange)) \<and>
    new_bt ev = Inr bt \<and>
    (\<forall>m \<in> set fpre. \<forall>e. m bt = Inl e \<longrightarrow> e = DataRange) \<and>
    m bt = Inl err \<and> err \<noteq> DataRange \<longrightarrow>
      backtest_loop new_bt (fpre @ m # fpost) (pre @ ev # post) out = Inl err)"
proof (intro conjI impI)
  assume "distinct evs \<and>
    (\<forall>ev \<in> set evs. \<forall>e. new_bt ev = Inl e \<longrightarrow> e = DataRange) \<and>
    (\<forall>ev \<in> set evs. \<forall>bt. new_bt ev = Inr bt \<longrightarrow>
        (\<forall>m \<in> set funcs. \<forall>e. m bt = Inl e \<longrightarrow> e = DataRange))"
  then show "\<exists>out'. backtest_loop new_bt funcs evs out = Inr out' \<and>
        (\<forall>ev i. out' ev i =
           (if ev \<in> set evs \<and> i < length funcs
            then (case new_bt ev of
                    Inl e \<Rightarrow> out ev i
                  | Inr bt \<Rightarrow> (case (funcs ! i) bt of Inl e \<Rightarrow> out ev i | Inr v \<Rightarrow> Some v))
            else out ev i))"
    using backtest_loop_cells[of evs new_bt funcs out] by blast
next
  assume "new_bt ev = Inl DataRange"
  then show "backtest_loop new_bt funcs (ev # rest) out = backtest_loop new_bt funcs rest out"
    by simp
next
  assume "m bt = Inl DataRange"
  then show "run_funcs bt (m # ms) i row = run_funcs bt ms (Suc i) row" by simp
next
  assume "(\<forall>ev \<in> set pre. \<forall>e. new_bt ev = Inl e \<longrightarrow> e = DataRange) \<and>
    (\<forall>ev \<in> set pre. \<forall>bt. new_bt ev = Inr bt \<longrightarrow>
        (\<forall>m \<in> set funcs. \<forall>e. m bt = Inl e \<longrightarrow> e = DataRange)) \<and>
    new_bt ev = Inl err \<and> err \<noteq> DataRange"
  then show "backtest_loop new_bt funcs (pre @ ev # post) out = Inl err"
    using backtest_loop_abort_constructor[of pre new_bt funcs ev err post out] by blast
next
  assume "(\<forall>ev \<in> set pre. \<forall>e. new_bt ev = Inl e \<longrightarrow> e = DataRange) \<and>
    (\<forall>ev \<in> set pre. \<forall>bt. new_bt ev = Inr bt \<longrightarrow>
        (\<forall>m \<in> set (fpre @ m # fpost). \<forall>e. m bt = Inl e \<longrightarrow> e = DataRange)) \<and>
    new_bt ev = Inr bt \<and>
    (\<forall>m \<in> set fpre. \<forall>e. m bt = Inl e \<longrightarrow> e = DataRange) \<and>
    m bt = Inl err \<and> err \<noteq> DataRange"
  then show "backtest_loop new_bt (fpre @ m # fpost) (pre @ ev # post) out = Inl err"
    using backtest_loop_abort_metric[of pre new_bt fpre m fpost ev bt err post out] by blast
qed

theorem batch_runner_error_policy_witness:
  "(\<exists>out'. backtest_loop (\<lambda>(d, bmo). init example_data d example_days bmo 5 (1/10) 10)
             [\<lambda>bt. Inl DataRange, \<lambda>bt. Inr (Num (pnl bt 1))] [(18, False), (1, False)]
             (\<lambda>ev i. None) = Inr out' \<and>
           out' (18, False) 0 = None \<and> out' (18, False) 1 = None \<and>
           out' (1, False) 0 = None \<and> out' (1, False) 1 = Some (Num (- 225))) \<and>
   backtest_loop (\<lambda>(d, bmo). init example_data d example_days bmo 20 (1/10) 10)
     [\<lambda>bt. Inl DataRange, \<lambda>bt. Inr (Num (pnl bt 1))] [(18, False), (1, False)]
     (\<lambda>ev i. None) = Inl IndexOutOfBounds \<and>
   backtest_loop (\<lambda>(d, bmo). init example_data d example_days bmo 5 (1/10) 10)
     [\<lambda>bt. Inl DataRange,
      \<lambda>bt. and_then (curve_changes_with curve_calc_disc bt 5 14) (\<lambda>(b, a). Inr b),
      \<lambda>bt. Inr (Num (pnl bt 1))]
     [(18, False), (1, False)] (\<lambda>ev i. None) = Inl IndexOutOfBounds"
proof -
  let ?nb = "\<lambda>(d :: int, bmo). init example_data d example_days bmo 5 (1/10) 10"
  let ?nb20 = "\<lambda>(d :: int, bmo). init example_data d example_days bmo 20 (1/10) 10"
  let ?raise = "(\<lambda>bt. Inl DataRange) :: backtester \<Rightarrow> py_error + py_float"
  let ?pnl = "\<lambda>bt. Inr (Num (pnl bt 1)) :: py_error + py_float"
  let ?curve = "\<lambda>bt. and_then (curve_changes_with curve_calc_disc bt 5 14)
                  (\<lambda>(b :: py_float, a :: py_float). Inr b :: py_error + py_float)"
  let ?evs = "[(18 :: int, False), (1, False)]"
  let ?out = "(\<lambda>ev i. None) :: int \<times> bool \<Rightarrow> nat \<Rightarrow> py_float option"
  have late: "?nb (18, False) = Inl DataRange" "?nb20 (18, False) = Inl DataRange"
    by (simp_all add: example_late_event)
  have ok: "?nb (1, False) = Inr example_bt" by (simp add: example_init)
  have long: "?nb20 (1, False) = Inl IndexOutOfBounds" by (simp add: example_long_holding)
  have cv: "?curve example_bt = Inl IndexOutOfBounds"
    by (simp add: example_after_lookup and_then_def)
  note pol = batch_runner_error_policy
  have a: "\<exists>out'. backtest_loop ?nb [?raise, ?pnl] ?evs ?out = Inr out' \<and>
        (\<forall>ev i. out' ev i =
           (if ev \<in> set ?evs \<and> i < length [?raise, ?pnl]
            then (case ?nb ev of
                    Inl e \<Rightarrow> ?out ev i
                  | Inr bt \<Rightarrow> (case ([?raise, ?pnl] ! i) bt of Inl e \<Rightarrow> ?out ev i
                               | Inr v \<Rightarrow> Some v))
            else ?out ev i))"
    using pol[where evs = ?evs and new_bt = ?nb and funcs = "[?raise, ?pnl]" and out = ?out]
      late ok
    by simp
  then obtain out' where
    r: "backtest_loop ?nb [?raise, ?pnl] ?evs ?out = Inr out'" and
    c: "\<forall>ev i. out' ev i =
           (if ev \<in> set ?evs \<and> i < length [?raise, ?pnl]
            then (case ?nb ev of
                    Inl e \<Rightarrow> ?out ev i
                  | Inr bt \<Rightarrow> (case ([?raise, ?pnl] ! i) bt of Inl e \<Rightarrow> ?out ev i
                               | Inr v \<Rightarrow> Some v))
            else ?out ev i)"
    by blast
  have cells: "out' (18, False) 0 = None \<and> out' (18, False) 1 = None \<and>
           out' (1, False) 0 = None \<and> out' (1, False) 1 = Some (Num (- 225))"
    using late ok by (simp add: c example_pnl)
  have b: "backtest_loop ?nb20 [?raise, ?pnl] ([(18, False)] @ (1, False) # []) ?out
             = Inl IndexOutOfBounds"
    using pol[where pre = "[(18 :: int, False)]" and new_bt = ?nb20 and funcs = "[?raise, ?pnl]"
                and ev = "(1, False)" and err = IndexOutOfBounds and post = "[]" and out = ?out]
      late long
    by simp
  have d: "backtest_loop ?nb ([?raise] @ ?curve # [?pnl]) ([(18, False)] @ (1, False) # []) ?out
             = Inl IndexOutOfBounds"
    using pol[where pre = "[(18 :: int, False)]" and new_bt = ?nb and fpre = "[?raise]"
                and m = ?curve and fpost = "[?pnl]" and bt = example_bt
                and ev = "(1, False)" and err = IndexOutOfBounds and post = "[]" and out = ?out]
      late ok cv
    by simp
  from r cells b d show ?thesis by auto
qed

text \<open>
  Claim C7 asks that \<^verbatim>\<open>curve_changes\<close> fail with the data-range error when
  \<open>anchorIndex + days_after\<close> lies past the end of the calendar, so that the batch
  runner skips the metric. The code does not do this: the lookup
  \<^verbatim>\<open>self.tdays[self.edate_idx + days_after]\<close> is not guarded (the same lookup in
  \<^verbatim>\<open>__get_expiry\<close> is), so pandas' own \<^verbatim>\<open>IndexError\<close> escapes and the batch ends.
  On the example data, with \<open>min_days_expiry = 3\<close>, the event of day 15 is constructed
  at position 11 of 15 trading days; \<^verbatim>\<open>curve_changes\<close> with its default of 5 days
  after raises the index error of pandas, and so does the whole batch.
\<close>

theorem curve_changes_unguarded_lookup:
  "\<exists>bt. init example_data 15 example_days False 5 (1/10) 3 = Inr bt \<and>
        edate_idx bt = 11 \<and> length (tdays bt) = 15 \<and>
        curve_changes quad_fit bt ''discrete'' 5 5 = Inl IndexOutOfBounds \<and>
        backtest_by_ticker_template example_data [(15, False)]
          [\<lambda>bt. curve_changes quad_fit bt ''discrete'' 5 5] 5 (1/10) 3
          = Inl IndexOutOfBounds"
proof -
  from example_end_event obtain bt where
    i: "init example_data 15 example_days False 5 (1/10) 3 = Inr bt" and
    t: "tdays bt = example_days" and x: "edate_idx bt = 11" by blast
  have c: "curve_changes quad_fit bt ''discrete'' 5 5 = Inl IndexOutOfBounds"
    by (simp add: curve_changes_def example_method curve_changes_with_def and_then_def
          py_index_def t x example_days_def)
  have "backtest_by_ticker_template example_data [(15, False)]
          [\<lambda>bt. curve_changes quad_fit bt ''discrete'' 5 5] 5 (1/10) 3
          = Inl IndexOutOfBounds"
    by (simp add: backtest_by_ticker_template_def example_calendar i c)
  with i t x c show ?thesis by (auto simp: example_days_def)
qed

text \<open>
  Claim C2 asks that the anchor date never be after the raw earnings date, also for a
  call before the market opens on the first day of the calendar. The code does not do
  this: \<^verbatim>\<open>__fix_edate\<close> finds the date at position 0 and decrements the position to
  \<open>-1\<close> without a check (the branch for a date that is not in the calendar raises the
  data-range error when no earlier day exists), and position \<open>-1\<close> of the calendar is
  its last day. On the example data the event of day 0, before the open, is constructed
  with the anchor on day 18, the last day of the data.
\<close>

theorem anchor_wraps_to_last_day:
  "where_first example_days 0 = Some 0 \<and>
   (\<exists>bt. init example_data 0 example_days True 5 (1/10) 10 = Inr bt \<and>
         edate_idx bt = - 1 \<and> edate bt = last example_days \<and> 0 < edate bt)"
proof -
  have "where_first example_days 0 = Some 0" by code_simp
  moreover have "last example_days = 18" by code_simp
  ultimately show ?thesis using example_first_day_event by auto
qed

text \<open>
  Claim C1 asks that the exit date lie strictly between the anchor date and the expiry
  date. The code does not ensure this: \<^verbatim>\<open>__get_exit_date\<close> compares the holding period,
  a number of trading days, with the number of calendar days up to the expiry, and
  clamps only when it is strictly greater. On the example data a holding period of 13
  trading days from day 1 is below the 17 calendar days to the expiry on day 18, is not
  clamped, and the thirteenth trading day after day 1 is day 18: the position is exited
  on the expiry date.
\<close>

theorem exit_on_expiry_day:
  "\<exists>bt. init example_data 1 example_days False 13 (1/10) 10 = Inr bt \<and>
        edate bt = 1 \<and> expiry bt = 18 \<and> 13 \<le> expiry bt - edate bt \<and>
        exit_date bt = expiry bt"
  using example_long_hold_event by auto

text \<open>
  Claim C10, as amended. For every constructed event with the anchor index strictly
  less than \<open>days_before\<close>, and \<open>days_before\<close> at most the length of the calendar plus
  the anchor index, the lookup of the day before in \<^verbatim>\<open>curve_changes\<close> does not fail: the
  negative position wraps around and selects the trading day at index
  \<open>length + anchor index - days_before\<close>, and whenever \<^verbatim>\<open>curve_changes\<close> returns, its
  change-before is the anchor curvature minus the curvature of the slice of that day.
  When moreover the anchor index is not negative, \<open>days_before\<close> is less than the length
  of the calendar and the calendar is strictly increasing, that day is after the anchor
  date.
\<close>

theorem before_lookup_wraps:
  assumes "init option_data earnings_date trading_days before_market_open holding_period ww
             min_days_expiry = Inr bt"
      and "edate_idx bt < days_before"
      and "days_before \<le> int (length (tdays bt)) + edate_idx bt"
  shows "py_index (tdays bt) (edate_idx bt - days_before)
           = Inr (tdays bt ! nat (int (length (tdays bt)) + edate_idx bt - days_before)) \<and>
         (\<forall>cb ca. curve_changes quad_fit bt method days_before days_after = Inr (cb, ca) \<longrightarrow>
            (\<exists>calc b e.
               curve_method quad_fit method = Inr calc \<and>
               calc (filter (\<lambda>r. DataDate r
                                 = tdays bt ! nat (int (length (tdays bt)) + edate_idx bt
                                                   - days_before))
                      (filter liquid (df bt))) = Inr b \<and>
               calc (filter (\<lambda>r. DataDate r = edate bt) (filter liquid (df bt))) = Inr e \<and>
               cb = e - b)) \<and>
         (0 \<le> edate_idx bt \<and> days_before < int (length (tdays bt)) \<and>
          sorted_wrt (<) (tdays bt) \<longrightarrow>
            edate bt < tdays bt ! nat (int (length (tdays bt)) + edate_idx bt - days_before))"
proof -
  let ?n = "int (length (tdays bt))"
  let ?k = "nat (?n + edate_idx bt - days_before)"
  have w: "py_index (tdays bt) (edate_idx bt - days_before) = Inr (tdays bt ! ?k)"
    using py_index_wraps[of "edate_idx bt - days_before" "tdays bt"] assms(2,3)
    by (simp add: algebra_simps)
  have s: "\<forall>cb ca. curve_changes quad_fit bt method days_before days_after = Inr (cb, ca) \<longrightarrow>
            (\<exists>calc b e.
               curve_method quad_fit method = Inr calc \<and>
               calc (filter (\<lambda>r. DataDate r = tdays bt ! ?k) (filter liquid (df bt))) = Inr b \<and>
               calc (filter (\<lambda>r. DataDate r = edate bt) (filter liquid (df bt))) = Inr e \<and>
               cb = e - b)"
    using w by (auto simp: curve_changes_def curve_changes_with_def and_then_Inr Let_def)
  have a: "0 \<le> edate_idx bt \<and> days_before < ?n \<and> sorted_wrt (<) (tdays bt) \<longrightarrow>
            edate bt < tdays bt ! ?k"
  proof
    assume h: "0 \<le> edate_idx bt \<and> days_before < ?n \<and> sorted_wrt (<) (tdays bt)"
    from py_index_nonneg[OF init_anchor[OF assms(1)]] h
    have i: "nat (edate_idx bt) < length (tdays bt)" and e: "edate bt = tdays bt ! nat (edate_idx bt)"
      by auto
    have lt: "nat (edate_idx bt) < ?k" using h by arith
    have k: "?k < length (tdays bt)" using assms(2) i by arith
    from h lt k have "tdays bt ! nat (edate_idx bt) < tdays bt ! ?k"
      by (simp add: sorted_wrt_nth_less)
    with e show "edate bt < tdays bt ! ?k" by simp
  qed
  from w s a show ?thesis by blast
qed

theorem before_lookup_wraps_witness:
  "init example_data 1 example_days False 5 (1/10) 10 = Inr example_bt \<and>
   edate_idx example_bt < 5 \<and> 5 \<le> int (length (tdays example_bt)) + edate_idx example_bt \<and>
   0 \<le> edate_idx example_bt \<and> 5 < int (length (tdays example_bt)) \<and>
   sorted_wrt (<) (tdays example_bt) \<and>
   py_index (tdays example_bt) (edate_idx example_bt - 5) = Inr 15 \<and>
   curve_changes (\<lambda>pts. None) example_bt ''discrete'' 5 5 = Inr (0, 0) \<and>
   edate example_bt < 15"
proof -
  have f: "edate_idx example_bt = 1" "tdays example_bt = example_days" "edate example_bt = 1"
    by (simp_all add: example_bt_def)
  have l: "length example_days = 15" by (simp add: example_days_def)
  have so: "sorted_wrt (<) example_days" by (simp add: example_days_def)
  have k: "example_days ! nat (int (length example_days) + 1 - 5) = 15"
    by (simp add: example_days_def)
  have c: "curve_changes (\<lambda>pts. None) example_bt ''discrete'' 5 5 = Inr (0, 0)"
    by (simp add: curve_changes_def example_method and_then_def example_curve_changes)
  from before_lookup_wraps[OF example_init, of 5 "\<lambda>pts. None" "''discrete''" 5]
    example_init f l so k c
  show ?thesis by simp
qed

text \<open>
  Claim C10 as stated (for every \<open>days_before\<close> above the anchor index) fails when
  \<open>days_before\<close> exceeds the length of the calendar plus the anchor index: on the example
  event (anchor index 1, 15 trading days) with \<open>days_before = 17\<close> the position
  \<open>-16\<close> is outside the calendar, no day is selected, and the lookup raises the index
  error of pandas.
\<close>

theorem before_lookup_counterexample:
  "init example_data 1 example_days False 5 (1/10) 10 = Inr example_bt \<and>
   edate_idx example_bt < 17 \<and>
   int (length (tdays example_bt)) + edate_idx example_bt - 17 < 0 \<and>
   py_index (tdays example_bt) (edate_idx example_bt - 17) = Inl IndexOutOfBounds \<and>
   curve_changes (\<lambda>pts. None) example_bt ''discrete'' 17 5 = Inl IndexOutOfBounds"
  using example_init
  by (simp add: curve_changes_def example_method curve_changes_with_def and_then_def
        py_index_def example_bt_def example_days_def)

end
